theory Spec2Isabelle
  imports Main "HOL-Library.Word"
begin

section \<open>Go values\<close>

text \<open>
  The client library is Go. Go's \<open>int\<close> is taken at its 64-bit width (the width on every
  64-bit platform) and \<open>int64\<close> is 64 bits by definition: both are \<open>64 word\<close>, read as
  two's complement with \<open>sint\<close>; \<open>*\<close> wraps as Go's does. A \<open>time.Duration\<close> is a count of
  nanoseconds. A decoded JSON value held in an \<open>interface{}\<close> (the \<open>result\<close> of an envelope)
  is kept as its JSON text: the code only tests it against \<open>nil\<close> and hands it back to the
  decoder.
\<close>

type_synonym go_int = "64 word"
type_synonym int64 = "64 word"
type_synonym duration = int
type_synonym json = string

text \<open>
  A value of type \<open>interface{}\<close> with its dynamic type. \<open>VMap None\<close> is a nil
  \<open>map[string]interface{}\<close>, \<open>VMap (Some kvs)\<close> a map with the entries \<open>kvs\<close>;
  \<open>VOther t\<close> stands for a value of any other dynamic type \<open>t\<close> (float64, bool, a slice).
\<close>

datatype go_value =
    VNil
  | VInt go_int
  | VInt64 int64
  | VString string
  | VMap "(string \<times> go_value) list option"
  | VOther string

type_synonym go_map = "(string \<times> go_value) list option"

text \<open>\<open>m[k]\<close>: the zero value \<open>nil\<close> when the key is absent or the map is nil.\<close>

fun index_map :: "go_map \<Rightarrow> string \<Rightarrow> go_value" where
  "index_map None k = VNil"
| "index_map (Some kvs) k = (case map_of kvs k of None \<Rightarrow> VNil | Some v \<Rightarrow> v)"

text \<open>Reading an entry of a value known to be a map (used to inspect recorded requests).\<close>

fun value_index :: "go_value \<Rightarrow> string \<Rightarrow> go_value" where
  "value_index (VMap m) k = index_map m k"
| "value_index _ k = VNil"

text \<open>The comma-ok type assertions \<open>v.(int64)\<close>, \<open>v.(map[string]interface{})\<close>, \<open>v.(string)\<close>.\<close>

fun assert_int64 :: "go_value \<Rightarrow> int64 \<times> bool" where
  "assert_int64 (VInt64 a) = (a, True)"
| "assert_int64 _ = (0, False)"

fun assert_map :: "go_value \<Rightarrow> go_map \<times> bool" where
  "assert_map (VMap m) = (m, True)"
| "assert_map _ = (None, False)"

fun assert_string :: "go_value \<Rightarrow> string \<times> bool" where
  "assert_string (VString s) = (s, True)"
| "assert_string _ = ([], False)"

text \<open>\<open>%d\<close> of an integer.\<close>

definition digit_char :: "nat \<Rightarrow> char" where
  "digit_char d =
     (if d = 0 then CHR ''0'' else if d = 1 then CHR ''1'' else if d = 2 then CHR ''2''
      else if d = 3 then CHR ''3'' else if d = 4 then CHR ''4'' else if d = 5 then CHR ''5''
      else if d = 6 then CHR ''6'' else if d = 7 then CHR ''7'' else if d = 8 then CHR ''8''
      else CHR ''9'')"

fun show_nat :: "nat \<Rightarrow> string" where
  "show_nat n = (if n < 10 then [digit_char n] else show_nat (n div 10) @ [digit_char (n mod 10)])"

definition show_int :: "int \<Rightarrow> string" where
  "show_int i = (if i < 0 then CHR ''-'' # show_nat (nat (- i)) else show_nat (nat i))"

section \<open>response.go: the envelope and the receipt\<close>

record Error =
  err_Message :: string
  err_Code :: go_int
  err_Data :: string
  err_Origin :: string

record Response =
  resp_Jsonrpc :: string
  resp_ID :: string
  resp_Result :: "json option"
  resp_Error :: "Error option"

text \<open>
  The scalar fields of \<open>Receipt\<close>. Its remaining fields (Category, Error, Detail, Account,
  Card, Creator, Payer, SenderCard, Merchant, Meta, ProcessingID) are filled by the decoder
  and read by no function of the package; they are left out.
\<close>

record Receipt =
  rcpt_ID :: string
  rcpt_CreateTime :: int64
  rcpt_PayTime :: int64
  rcpt_CancelTime :: int64
  rcpt_State :: go_int
  rcpt_Type :: go_int
  rcpt_External :: bool
  rcpt_Operation :: go_int
  rcpt_Description :: string
  rcpt_Amount :: int64
  rcpt_Currency :: go_int
  rcpt_Commission :: int64

text \<open>
  \<open>CreateReceiptResponse\<close>, \<open>PayReceiptResponse\<close>, \<open>SendReceiptResponse\<close>,
  \<open>CancelReceiptResponse\<close>, \<open>CheckReceiptResponse\<close>, \<open>GetReceiptResponse\<close> and
  \<open>SetFiscalDataResponse\<close> are seven declarations of the same struct: one field
  \<open>Receipt *Receipt\<close>, nil in the zero value.
\<close>

record ReceiptResponse =
  Receipt :: "Receipt option"

type_synonym CreateReceiptResponse = ReceiptResponse
type_synonym PayReceiptResponse = ReceiptResponse
type_synonym SendReceiptResponse = ReceiptResponse
type_synonym CancelReceiptResponse = ReceiptResponse
type_synonym CheckReceiptResponse = ReceiptResponse
type_synonym GetReceiptResponse = ReceiptResponse
type_synonym SetFiscalDataResponse = ReceiptResponse

record GetAllReceiptsResponse =
  Receipts :: "Receipt option list"

record CardData =
  card_ID :: string
  card_Token :: string

record PaymentData =
  OrderID :: string
  CardData :: CardData

record PaymentDetails =
  pd_Client :: PaymentData
  pd_Driver :: PaymentData
  pd_Amount :: go_int

section \<open>Errors\<close>

text \<open>
  An \<open>error\<close> value. The package's sentinels (each \<open>errors.New\<close> is one value, compared by
  identity) are constructors of their own; \<open>context_DeadlineExceeded\<close> is the standard
  library's sentinel; \<open>Foreign msg causes accepts\<close> is an error made by a collaborator
  (net/http, net/url, encoding/json, io): its text, what its \<open>Unwrap\<close> returns (no error,
  one, or several for an \<open>Unwrap() []error\<close>), and the targets for which its \<open>Is\<close> method
  answers true (none when it has no such method); \<open>Errorf_w p e\<close> is
  \<open>fmt.Errorf(p + "%w", e)\<close>, which wraps \<open>e\<close>; \<open>Errorf_v f args\<close> is an \<open>fmt.Errorf\<close>
  whose format \<open>f\<close> has no \<open>%w\<close>: a fresh error that wraps nothing. The sentinels, the
  errors of \<open>fmt.Errorf\<close> and \<open>context.DeadlineExceeded\<close> have no \<open>Is\<close> method.
\<close>

datatype go_error =
    ErrReceiptNotFound
  | ErrReceiptAlreadyPaid
  | ErrReceiptExpired
  | ErrInvalidAmount
  | ErrInvalidParams
  | ErrCardNotFound
  | ErrInvalidFormatToken
  | ErrCardNumberNotFound
  | ErrCardExpired
  | ErrP2PIdenticalCards
  | ErrPaycomServiceNotAvailable
  | ErrProcessingCenterNotAvailable
  | ErrPermissionDenied
  | ErrParseError
  | ErrMethodNotFound
  | ErrInvalidRequest
  | ErrPaymeError
  | ErrTimeout
  | ErrEmptyOrInvalidPaycomID
  | ErrEmptyOrInvalidPaycomKey
  | context_DeadlineExceeded
  | Foreign string "go_error list" "go_error list"
  | Errorf_w string go_error
  | Errorf_v string "fmt_arg list"
and fmt_arg =
    ArgError go_error
  | ArgString string
  | ArgResponse "Response option"
  | ArgErrorDetail "Error option"

text \<open>
  \<open>errors.Is(err, target)\<close>: at each error of the tree that \<open>Unwrap\<close> spans, the error is
  the target, or its \<open>Is\<close> method answers true for the target.
\<close>

fun errors_Is :: "go_error \<Rightarrow> go_error \<Rightarrow> bool" where
  "errors_Is (Errorf_w p e) target = (Errorf_w p e = target \<or> errors_Is e target)"
| "errors_Is (Foreign m causes accepts) target =
     (Foreign m causes accepts = target \<or> target \<in> set accepts \<or>
      list_ex (\<lambda>e. errors_Is e target) causes)"
| "errors_Is err target = (err = target)"

text \<open>
  The error is the target or wraps it: identity along \<open>Unwrap\<close> alone, no \<open>Is\<close> method
  asked. The transport reports the exceeded deadline of the request's context by an
  error that is or wraps \<open>context.DeadlineExceeded\<close> in this sense.
\<close>

fun unwraps_to :: "go_error \<Rightarrow> go_error \<Rightarrow> bool" where
  "unwraps_to (Errorf_w p e) target = (Errorf_w p e = target \<or> unwraps_to e target)"
| "unwraps_to (Foreign m causes accepts) target =
     (Foreign m causes accepts = target \<or> list_ex (\<lambda>e. unwraps_to e target) causes)"
| "unwraps_to err target = (err = target)"

text \<open>
  Two errors of the standard library. \<open>url_Error cause\<close> is the \<open>*url.Error\<close> in which
  \<open>http.Client.Do\<close> returns every failure: it unwraps to the cause.
  \<open>http_timeoutError\<close> is net/http's \<open>*timeoutError\<close>, the failure of a request that
  outlasted \<open>http.Client.Timeout\<close>: it wraps nothing, and its \<open>Is\<close> method answers true
  for \<open>context.DeadlineExceeded\<close>.
\<close>

definition url_Error :: "go_error \<Rightarrow> go_error" where
  "url_Error cause = Foreign ''Post https://checkout.test.paycom.uz/api'' [cause] []"

definition http_timeoutError :: go_error where
  "http_timeoutError =
     Foreign ''net/http: request canceled (Client.Timeout exceeded while awaiting headers)''
       [] [context_DeadlineExceeded]"

definition InvalidAmountErrorCode :: go_int where "InvalidAmountErrorCode = - 31611"
definition InvalidParamsErrorCode :: go_int where "InvalidParamsErrorCode = - 32602"
definition ReceiptNotFoundErrorCode :: go_int where "ReceiptNotFoundErrorCode = - 31401"
definition ReceiptAlreadyPaidErrorCode :: go_int where "ReceiptAlreadyPaidErrorCode = - 31402"
definition ReceiptExpiredErrorCode :: go_int where "ReceiptExpiredErrorCode = - 31403"
definition CardNotFoundErrorCode :: go_int where "CardNotFoundErrorCode = - 31400"
definition InvalidFormatTokenErrorCode :: go_int where "InvalidFormatTokenErrorCode = - 32500"
definition CardNumberNotFoundCode :: go_int where "CardNumberNotFoundCode = - 31300"
definition CardExpiredCode :: go_int where "CardExpiredCode = - 31301"
definition P2PIdenticalCardsErrorCode :: go_int where "P2PIdenticalCardsErrorCode = - 31630"
definition PaycomServiceNotAvailableCode :: go_int where "PaycomServiceNotAvailableCode = - 31001"
definition ProcessingCenterNotAvailableCode :: go_int where "ProcessingCenterNotAvailableCode = - 31002"
definition PermissionDeniedCode :: go_int where "PermissionDeniedCode = - 32504"
definition ParseErrorCode :: go_int where "ParseErrorCode = - 32700"
definition MethodNotFoundCode :: go_int where "MethodNotFoundCode = - 32601"
definition InvalidRequestCode :: go_int where "InvalidRequestCode = - 32600"

lemmas error_code_defs =
  InvalidAmountErrorCode_def InvalidParamsErrorCode_def ReceiptNotFoundErrorCode_def
  ReceiptAlreadyPaidErrorCode_def ReceiptExpiredErrorCode_def CardNotFoundErrorCode_def
  InvalidFormatTokenErrorCode_def CardNumberNotFoundCode_def CardExpiredCode_def
  P2PIdenticalCardsErrorCode_def PaycomServiceNotAvailableCode_def
  ProcessingCenterNotAvailableCode_def PermissionDeniedCode_def ParseErrorCode_def
  MethodNotFoundCode_def InvalidRequestCode_def

fun IsPaymeError :: "go_error \<Rightarrow> bool" where
  "IsPaymeError ErrReceiptNotFound = True"
| "IsPaymeError ErrReceiptAlreadyPaid = True"
| "IsPaymeError ErrReceiptExpired = True"
| "IsPaymeError ErrInvalidAmount = True"
| "IsPaymeError ErrInvalidParams = True"
| "IsPaymeError ErrCardNotFound = True"
| "IsPaymeError ErrInvalidFormatToken = True"
| "IsPaymeError ErrCardNumberNotFound = True"
| "IsPaymeError ErrCardExpired = True"
| "IsPaymeError ErrP2PIdenticalCards = True"
| "IsPaymeError ErrPaycomServiceNotAvailable = True"
| "IsPaymeError ErrProcessingCenterNotAvailable = True"
| "IsPaymeError ErrPermissionDenied = True"
| "IsPaymeError ErrParseError = True"
| "IsPaymeError ErrMethodNotFound = True"
| "IsPaymeError ErrInvalidRequest = True"
| "IsPaymeError _ = False"

fun GetErrorCode :: "go_error \<Rightarrow> go_int" where
  "GetErrorCode ErrInvalidAmount = InvalidAmountErrorCode"
| "GetErrorCode ErrInvalidParams = InvalidParamsErrorCode"
| "GetErrorCode ErrReceiptNotFound = ReceiptNotFoundErrorCode"
| "GetErrorCode ErrReceiptAlreadyPaid = ReceiptAlreadyPaidErrorCode"
| "GetErrorCode ErrReceiptExpired = ReceiptExpiredErrorCode"
| "GetErrorCode ErrCardNotFound = CardNotFoundErrorCode"
| "GetErrorCode ErrInvalidFormatToken = InvalidFormatTokenErrorCode"
| "GetErrorCode ErrCardNumberNotFound = CardNumberNotFoundCode"
| "GetErrorCode ErrCardExpired = CardExpiredCode"
| "GetErrorCode ErrP2PIdenticalCards = P2PIdenticalCardsErrorCode"
| "GetErrorCode ErrPaycomServiceNotAvailable = PaycomServiceNotAvailableCode"
| "GetErrorCode ErrProcessingCenterNotAvailable = ProcessingCenterNotAvailableCode"
| "GetErrorCode ErrPermissionDenied = PermissionDeniedCode"
| "GetErrorCode ErrParseError = ParseErrorCode"
| "GetErrorCode ErrMethodNotFound = MethodNotFoundCode"
| "GetErrorCode ErrInvalidRequest = InvalidRequestCode"
| "GetErrorCode _ = 0"

section \<open>utils.go\<close>

definition FromSomToTiyin :: "go_int \<Rightarrow> go_int" where
  "FromSomToTiyin amount = amount * 100"

definition ValidateAmount :: "int64 \<Rightarrow> go_error option" where
  "ValidateAmount amount =
     (if sint amount \<le> 0 then Some ErrInvalidAmount
      else if sint amount > 999999999999 then Some ErrInvalidAmount
      else None)"

definition ValidateCardToken :: "string \<Rightarrow> go_error option" where
  "ValidateCardToken token =
     (if token = [] then Some ErrInvalidFormatToken
      else if length token < 10 \<or> length token > 100 then Some ErrInvalidFormatToken
      else None)"

definition ValidateReceiptID :: "string \<Rightarrow> go_error option" where
  "ValidateReceiptID rid =
     (if rid = [] then Some ErrReceiptNotFound
      else if length rid < 5 \<or> length rid > 100 then Some ErrReceiptNotFound
      else None)"

section \<open>The error taxonomy of the pipeline\<close>

text \<open>
  \<open>handleErrorResponse\<close>: the \<open>switch\<close> on the envelope's error code, case by case in the
  source's order. The method does not use its receiver.
\<close>

definition handleErrorResponse :: "Response \<Rightarrow> Response \<times> go_error option" where
  "handleErrorResponse responseJson =
     (case resp_Error responseJson of
        None \<Rightarrow> (responseJson, None)
      | Some e \<Rightarrow>
          (let errorCode = err_Code e in
           (responseJson,
            if errorCode = InvalidAmountErrorCode then Some ErrInvalidAmount
            else if errorCode = InvalidParamsErrorCode then Some ErrInvalidParams
            else if errorCode = CardNotFoundErrorCode then Some ErrCardNotFound
            else if errorCode = InvalidFormatTokenErrorCode then Some ErrInvalidFormatToken
            else if errorCode = CardNumberNotFoundCode then Some ErrCardNotFound
            else if errorCode = CardExpiredCode then Some ErrCardExpired
            else if errorCode = ProcessingCenterNotAvailableCode
              then Some ErrProcessingCenterNotAvailable
            else if errorCode = PaycomServiceNotAvailableCode
              then Some ErrPaycomServiceNotAvailable
            else if errorCode = ReceiptNotFoundErrorCode then Some ErrReceiptNotFound
            else if errorCode = ReceiptAlreadyPaidErrorCode then Some ErrReceiptAlreadyPaid
            else if errorCode = ReceiptExpiredErrorCode then Some ErrReceiptExpired
            else if errorCode \<noteq> 0 then Some ErrPaymeError
            else None)))"

text \<open>
  The taxonomy table of section 4.2 of the specification, row by row (the specification's
  words, not the code's): the gateway code and the kind the row names for it.
\<close>

definition taxonomy_table :: "(go_int \<times> go_error) list" where
  "taxonomy_table =
     [(- 31611, ErrInvalidAmount), (- 32602, ErrInvalidParams), (- 31401, ErrReceiptNotFound),
      (- 31402, ErrReceiptAlreadyPaid), (- 31403, ErrReceiptExpired),
      (- 31400, ErrCardNotFound), (- 31300, ErrCardNotFound),
      (- 32500, ErrInvalidFormatToken), (- 31301, ErrCardExpired),
      (- 31630, ErrP2PIdenticalCards), (- 31001, ErrPaycomServiceNotAvailable),
      (- 31002, ErrProcessingCenterNotAvailable), (- 32504, ErrPermissionDenied),
      (- 32700, ErrParseError), (- 32601, ErrMethodNotFound), (- 32600, ErrInvalidRequest)]"

text \<open>A decoded envelope that carries an error with the given code and nothing else.\<close>

definition error_envelope :: "go_int \<Rightarrow> Response" where
  "error_envelope code =
     \<lparr>resp_Jsonrpc = ''2.0'', resp_ID = ''1'', resp_Result = None,
      resp_Error = Some \<lparr>err_Message = [], err_Code = code, err_Data = [], err_Origin = []\<rparr>\<rparr>"

text \<open>The kind the pipeline resolves a gateway code to.\<close>

definition kindOf :: "go_int \<Rightarrow> go_error option" where
  "kindOf code = snd (handleErrorResponse (error_envelope code))"

section \<open>The client, its collaborators and the world\<close>

record xAuthHeaders =
  paymeID :: string
  paymeKey :: string

text \<open>
  What \<open>sendRequest\<close> hands to the transport: the HTTP request with its deadline.
  \<open>rq_data\<close> is the envelope map the body was serialised from, kept beside the body so
  that the outbound parameters can be read back.
\<close>

record request =
  rq_http_method :: string
  rq_url :: string
  rq_X_Auth :: string
  rq_Content_Type :: string
  rq_timeout :: duration
  rq_data :: go_value
  rq_body :: string

text \<open>
  What \<open>HTTPClient.Do\<close> followed by \<open>io.ReadAll\<close> of the body yields: an error of the
  call, or a response with its status code and the outcome of reading its body.
\<close>

datatype http_outcome =
    DoError go_error
  | DoResponse nat "go_error + string"

text \<open>
  The transport is a collaborator: \<open>HTTPClient\<close> is any function of the requests made
  so far and the present one. \<open>Logger\<close> tells whether a logger is configured (non-nil).
\<close>

record Client =
  Headers :: xAuthHeaders
  BaseURL :: string
  HTTPClient :: "request list \<Rightarrow> request \<Rightarrow> http_outcome"
  Logger :: bool
  Timeout :: duration
  IsTestMode :: bool
  RequisiteName :: string

text \<open>
  The other collaborators, as parameters: encoding/json on the three shapes the code
  decodes into (for a typed result: \<open>json.Marshal\<close> of \<open>resp.Result\<close> followed by
  \<open>json.Unmarshal\<close> into the zero-valued struct), the URL check of
  \<open>http.NewRequestWithContext\<close>, and the clock (\<open>time_Now n\<close> is the \<open>n\<close>-th reading of
  \<open>time.Now().UnixNano()\<close>).
\<close>

record runtime =
  json_Marshal :: "go_value \<Rightarrow> go_error + string"
  json_Unmarshal_Response :: "string \<Rightarrow> go_error + Response"
  json_Unmarshal_ReceiptResponse :: "json \<Rightarrow> go_error + ReceiptResponse"
  json_Unmarshal_Receipts :: "json \<Rightarrow> go_error + Receipt option list"
  http_NewRequest :: "string \<Rightarrow> go_error option"
  time_Now :: "nat \<Rightarrow> int64"

text \<open>A line written by \<open>Logger.Printf\<close>: the format and its arguments.\<close>

datatype log_line = Printf string "fmt_arg list"

text \<open>
  The effects of the package: the requests dispatched to the transport (oldest first),
  the lines logged, and how often the clock was read.
\<close>

record world =
  sent :: "request list"
  logged :: "log_line list"
  clock_reads :: nat

text \<open>
  The only panic the modelled code can raise is the runtime's nil pointer dereference;
  a call either returns its results or panics.
\<close>

datatype 'a outcome = Return 'a | Panic

definition GenerateRequestID :: "runtime \<Rightarrow> world \<Rightarrow> string \<Rightarrow> world \<times> string" where
  "GenerateRequestID rt w prefix =
     (w\<lparr>clock_reads := Suc (clock_reads w)\<rparr>,
      prefix @ '':'' @ show_int (sint (time_Now rt (clock_reads w))))"

section \<open>The request/response pipeline\<close>

definition new_request :: "Client \<Rightarrow> duration \<Rightarrow> go_value \<Rightarrow> string \<Rightarrow> bool \<Rightarrow> request" where
  "new_request c requestTimeout data requestBody withID =
     \<lparr>rq_http_method = ''POST'', rq_url = BaseURL c,
      rq_X_Auth = (if withID then paymeID (Headers c)
                   else paymeID (Headers c) @ '':'' @ paymeKey (Headers c)),
      rq_Content_Type = ''application/json'',
      rq_timeout = requestTimeout, rq_data = data, rq_body = requestBody\<rparr>"

definition envelope_data :: "string \<Rightarrow> string \<Rightarrow> go_value \<Rightarrow> go_value" where
  "envelope_data requestID method params =
     VMap (Some [(''id'', VString requestID), (''method'', VString method), (''params'', params)])"

text \<open>
  \<open>sendRequest\<close>, exit by exit. The variadic \<open>timeout\<close> is a list. The caller's context is
  taken to be live and without a deadline of its own (every caller passes the one it was
  given); the derived deadline travels in the request.
\<close>

definition sendRequest ::
  "runtime \<Rightarrow> Client \<Rightarrow> world \<Rightarrow> string \<Rightarrow> string \<Rightarrow> go_value \<Rightarrow> bool \<Rightarrow> duration list
   \<Rightarrow> world \<times> Response option \<times> go_error option" where
  "sendRequest rt c w requestID method params withID timeout =
     (let requestTimeout = (if length timeout > 0 then timeout ! 0 else Timeout c);
          data = envelope_data requestID method params
      in case json_Marshal rt data of
           Inl err \<Rightarrow> (w, None, Some (Errorf_w ''json marshal error: '' err))
         | Inr requestBody \<Rightarrow>
             (case http_NewRequest rt (BaseURL c) of
                Some err \<Rightarrow> (w, None, Some (Errorf_w ''request creation error: '' err))
              | None \<Rightarrow>
                  (let req = new_request c requestTimeout data requestBody withID;
                       w1 = w\<lparr>sent := sent w @ [req]\<rparr>
                   in case HTTPClient c (sent w) req of
                        DoError err \<Rightarrow>
                          if errors_Is err context_DeadlineExceeded
                          then (w1, None, Some ErrTimeout)
                          else (w1, None, Some (Errorf_w ''http request error: '' err))
                      | DoResponse status body \<Rightarrow>
                          (case body of
                             Inl err \<Rightarrow>
                               (w1, None, Some (Errorf_w ''response body read error: '' err))
                           | Inr responseBody \<Rightarrow>
                               (case json_Unmarshal_Response rt responseBody of
                                  Inl err \<Rightarrow>
                                    (w1, None, Some (Errorf_w ''json unmarshal error: '' err))
                                | Inr decoded \<Rightarrow>
                                    (case handleErrorResponse decoded of
                                       (responseJson, None) \<Rightarrow> (w1, Some responseJson, None)
                                     | (responseJson, Some err) \<Rightarrow>
                                         ((if Logger c
                                           then w1\<lparr>logged := logged w1 @
                                                  [Printf ''PayMe error response - %v, error - %v''
                                                     [ArgErrorDetail (resp_Error responseJson),
                                                      ArgError err]]\<rparr>
                                           else w1),
                                          Some responseJson, Some err)))))))"

section \<open>Receipt operations\<close>

text \<open>
  The block \<open>// Parse result\<close> that seven operations repeat word for word: the zero-valued
  response when \<open>resp.Result\<close> is nil, the decoded one otherwise. \<open>resp\<close> is dereferenced.
\<close>

definition parse_result ::
  "runtime \<Rightarrow> Response option \<Rightarrow> (ReceiptResponse option \<times> go_error option) outcome" where
  "parse_result rt resp =
     (case resp of
        None \<Rightarrow> Panic
      | Some r \<Rightarrow>
          (case resp_Result r of
             None \<Rightarrow> Return (Some \<lparr>Receipt = None\<rparr>, None)
           | Some j \<Rightarrow>
               (case json_Unmarshal_ReceiptResponse rt j of
                  Inl err \<Rightarrow> Return (None, Some (Errorf_w ''result unmarshal error: '' err))
                | Inr result \<Rightarrow> Return (Some result, None))))"

text \<open>
  What follows \<open>sendRequest\<close> in those operations: the pipeline's error as it is, or the
  parsed result.
\<close>

definition after_send ::
  "runtime \<Rightarrow> world \<times> Response option \<times> go_error option
   \<Rightarrow> world \<times> (ReceiptResponse option \<times> go_error option) outcome" where
  "after_send rt sr =
     (case sr of
        (w, resp, Some err) \<Rightarrow> (w, Return (None, Some err))
      | (w, resp, None) \<Rightarrow> (w, parse_result rt resp))"

definition CreateReceipt_params :: "int64 \<Rightarrow> go_map \<Rightarrow> string \<Rightarrow> go_map \<Rightarrow> go_value" where
  "CreateReceipt_params amount account description detail =
     VMap (Some [(''amount'', VInt64 amount), (''account'', VMap account),
                 (''description'', VString description), (''detail'', VMap detail)])"

definition CreateReceipt ::
  "runtime \<Rightarrow> Client \<Rightarrow> world \<Rightarrow> int64 \<Rightarrow> go_map \<Rightarrow> string \<Rightarrow> go_map
   \<Rightarrow> world \<times> (CreateReceiptResponse option \<times> go_error option) outcome" where
  "CreateReceipt rt c w amount account description detail =
     (case ValidateAmount amount of
        Some err \<Rightarrow> (w, Return (None, Some err))
      | None \<Rightarrow>
          (case GenerateRequestID rt w ''ReceiptsCreate'' of
             (w1, requestID) \<Rightarrow>
               after_send rt
                 (sendRequest rt c w1 requestID ''receipts.create''
                    (CreateReceipt_params amount account description detail) False [])))"

definition PayReceipt ::
  "runtime \<Rightarrow> Client \<Rightarrow> world \<Rightarrow> string \<Rightarrow> string
   \<Rightarrow> world \<times> (PayReceiptResponse option \<times> go_error option) outcome" where
  "PayReceipt rt c w receiptID token =
     (case ValidateReceiptID receiptID of
        Some err \<Rightarrow> (w, Return (None, Some err))
      | None \<Rightarrow>
          (case ValidateCardToken token of
             Some err \<Rightarrow> (w, Return (None, Some err))
           | None \<Rightarrow>
               (case GenerateRequestID rt w ''ReceiptsPay'' of
                  (w1, requestID) \<Rightarrow>
                    after_send rt
                      (sendRequest rt c w1 requestID ''receipts.pay''
                         (VMap (Some [(''id'', VString receiptID), (''token'', VString token)]))
                         False []))))"

text \<open>
  \<open>SendReceipt\<close>, \<open>CancelReceipt\<close>, \<open>CheckReceipt\<close> and \<open>GetReceipt\<close> differ in the prefix of
  the request id and in the gateway method only.
\<close>

definition by_receipt_id ::
  "string \<Rightarrow> string \<Rightarrow> runtime \<Rightarrow> Client \<Rightarrow> world \<Rightarrow> string
   \<Rightarrow> world \<times> (ReceiptResponse option \<times> go_error option) outcome" where
  "by_receipt_id prefix method rt c w receiptID =
     (case ValidateReceiptID receiptID of
        Some err \<Rightarrow> (w, Return (None, Some err))
      | None \<Rightarrow>
          (case GenerateRequestID rt w prefix of
             (w1, requestID) \<Rightarrow>
               after_send rt
                 (sendRequest rt c w1 requestID method
                    (VMap (Some [(''id'', VString receiptID)])) False [])))"

definition SendReceipt ::
  "runtime \<Rightarrow> Client \<Rightarrow> world \<Rightarrow> string
   \<Rightarrow> world \<times> (SendReceiptResponse option \<times> go_error option) outcome" where
  "SendReceipt = by_receipt_id ''ReceiptsSend'' ''receipts.send''"

definition CancelReceipt ::
  "runtime \<Rightarrow> Client \<Rightarrow> world \<Rightarrow> string
   \<Rightarrow> world \<times> (CancelReceiptResponse option \<times> go_error option) outcome" where
  "CancelReceipt = by_receipt_id ''ReceiptsCancel'' ''receipts.cancel''"

definition CheckReceipt ::
  "runtime \<Rightarrow> Client \<Rightarrow> world \<Rightarrow> string
   \<Rightarrow> world \<times> (CheckReceiptResponse option \<times> go_error option) outcome" where
  "CheckReceipt = by_receipt_id ''ReceiptsCheck'' ''receipts.check''"

definition GetReceipt ::
  "runtime \<Rightarrow> Client \<Rightarrow> world \<Rightarrow> string
   \<Rightarrow> world \<times> (GetReceiptResponse option \<times> go_error option) outcome" where
  "GetReceipt = by_receipt_id ''ReceiptsGet'' ''receipts.get''"

definition SetFiscalData ::
  "runtime \<Rightarrow> Client \<Rightarrow> world \<Rightarrow> string \<Rightarrow> go_map
   \<Rightarrow> world \<times> (SetFiscalDataResponse option \<times> go_error option) outcome" where
  "SetFiscalData rt c w receiptID fiscalData =
     (case ValidateReceiptID receiptID of
        Some err \<Rightarrow> (w, Return (None, Some err))
      | None \<Rightarrow>
          (case GenerateRequestID rt w ''ReceiptsSetFiscalData'' of
             (w1, requestID) \<Rightarrow>
               after_send rt
                 (sendRequest rt c w1 requestID ''receipts.set_fiscal_data''
                    (VMap (Some [(''id'', VString receiptID), (''fiscal_data'', VMap fiscalData)]))
                    False [])))"

definition GetAllReceipts ::
  "runtime \<Rightarrow> Client \<Rightarrow> world \<Rightarrow> int64 \<Rightarrow> int64 \<Rightarrow> go_int
   \<Rightarrow> world \<times> (GetAllReceiptsResponse option \<times> go_error option) outcome" where
  "GetAllReceipts rt c w from to count =
     (case GenerateRequestID rt w ''ReceiptsGetAll'' of
        (w1, requestID) \<Rightarrow>
          (case sendRequest rt c w1 requestID ''receipts.get_all''
                  (VMap (Some [(''from'', VInt64 from), (''to'', VInt64 to), (''count'', VInt count)]))
                  False [] of
             (w2, resp, Some err) \<Rightarrow> (w2, Return (None, Some err))
           | (w2, None, None) \<Rightarrow> (w2, Panic)
           | (w2, Some r, None) \<Rightarrow>
               (case resp_Result r of
                  None \<Rightarrow> (w2, Return (Some \<lparr>Receipts = []\<rparr>, None))
                | Some j \<Rightarrow>
                    (let w3 = (if Logger c
                               then w2\<lparr>logged := logged w2 @
                                      [Printf ''GetAllReceipts response: %s'' [ArgString j]]\<rparr>
                               else w2)
                     in case json_Unmarshal_Receipts rt j of
                          Inl err \<Rightarrow>
                            (w3, Return (None, Some (Errorf_w ''result unmarshal error: '' err)))
                        | Inr rs \<Rightarrow> (w3, Return (Some \<lparr>Receipts = rs\<rparr>, None))))))"

section \<open>Composite workflows\<close>

text \<open>
  \<open>CreateAndPayReceipt\<close>. \<open>createResp.Receipt.ID\<close> dereferences the receipt of the
  created response.
\<close>

definition CreateAndPayReceipt ::
  "runtime \<Rightarrow> Client \<Rightarrow> world \<Rightarrow> int64 \<Rightarrow> go_map \<Rightarrow> string \<Rightarrow> string
   \<Rightarrow> world \<times> (PayReceiptResponse option \<times> go_error option) outcome" where
  "CreateAndPayReceipt rt c w amount account description token =
     (case CreateReceipt rt c w amount account description None of
        (w1, Panic) \<Rightarrow> (w1, Panic)
      | (w1, Return (createResp, Some err)) \<Rightarrow>
          (w1, Return (None, Some (Errorf_w ''create receipt error: '' err)))
      | (w1, Return (None, None)) \<Rightarrow> (w1, Panic)
      | (w1, Return (Some cr, None)) \<Rightarrow>
          (case Receipt cr of
             None \<Rightarrow> (w1, Panic)
           | Some r \<Rightarrow>
               (case PayReceipt rt c w1 (rcpt_ID r) token of
                  (w2, Panic) \<Rightarrow> (w2, Panic)
                | (w2, Return (payResp, Some err)) \<Rightarrow>
                    (w2, Return (None, Some (Errorf_w ''pay receipt error: '' err)))
                | (w2, Return (payResp, None)) \<Rightarrow> (w2, Return (payResp, None)))))"

subsection \<open>receipts.go\<close>

definition PayForOrderReasonID :: string where
  "PayForOrderReasonID = ''6''"

text \<open>\<open>fmt.Sprintf(Description, orderID)\<close> with \<open>Description = "Merchant transaction for order - %s"\<close>.\<close>

definition Description :: "string \<Rightarrow> string" where
  "Description orderID = ''Merchant transaction for order - '' @ orderID"

text \<open>
  An entry of a map literal whose key is computed: it replaces an earlier entry with the
  same key.
\<close>

definition map_set :: "string \<Rightarrow> go_value \<Rightarrow> (string \<times> go_value) list \<Rightarrow> (string \<times> go_value) list" where
  "map_set k v kvs = filter (\<lambda>kv. fst kv \<noteq> k) kvs @ [(k, v)]"

definition CreateMerchantReceipt_params :: "Client \<Rightarrow> PaymentDetails \<Rightarrow> go_value" where
  "CreateMerchantReceipt_params c data =
     (let amountInTiyin = FromSomToTiyin (pd_Amount data) in
      VMap (Some
        [(''amount'', VInt amountInTiyin),
         (''account'',
            VMap (Some
              (map_set ''reason'' (VString PayForOrderReasonID)
                (map_set ''card_id'' (VString (card_ID (CardData (pd_Client data))))
                  [(RequisiteName c, VString (OrderID (pd_Client data)))])))),
         (''description'', VString (Description (OrderID (pd_Client data))))]))"

definition CreateMerchantReceipt ::
  "runtime \<Rightarrow> Client \<Rightarrow> world \<Rightarrow> PaymentDetails \<Rightarrow> world \<times> (string \<times> go_error option) outcome" where
  "CreateMerchantReceipt rt c w data =
     (let requestID = ''ReceiptsCreate:MerchantTransaction:'' @ OrderID (pd_Client data) in
      case sendRequest rt c w requestID ''receipts.create''
             (CreateMerchantReceipt_params c data) False [] of
        (w1, resp, Some err) \<Rightarrow>
          (w1, Return ([], Some (Errorf_v
             ''failed receipts create (error - %v request-id - %s response - %v)''
             [ArgError err, ArgString requestID, ArgResponse resp])))
      | (w1, None, None) \<Rightarrow> (w1, Panic)
      | (w1, Some r, None) \<Rightarrow>
          (case (case resp_Result r of
                   None \<Rightarrow> Inr \<lparr>Receipt = None\<rparr>
                 | Some j \<Rightarrow> json_Unmarshal_ReceiptResponse rt j) of
             Inl err \<Rightarrow> (w1, Return ([], Some (Errorf_w ''result unmarshal error: '' err)))
           | Inr result \<Rightarrow>
               (case Receipt result of
                  None \<Rightarrow> (w1, Panic)
                | Some receipt \<Rightarrow>
                    (let createdReceiptsID = rcpt_ID receipt;
                         w2 = (if Logger c
                               then w1\<lparr>logged := logged w1 @
                                 [Printf ''receipts created for order - %v request-id - %s transaction-id - %s''
                                    [ArgString (OrderID (pd_Client data)), ArgString requestID,
                                     ArgString createdReceiptsID]]\<rparr>
                               else w1)
                     in (w2, Return (createdReceiptsID, None))))))"

text \<open>
  \<open>PayMerchantReceipt\<close>. On an error of the pipeline the message is built from
  \<open>resp.Error\<close>, which dereferences \<open>resp\<close>.
\<close>

definition PayMerchantReceipt ::
  "runtime \<Rightarrow> Client \<Rightarrow> world \<Rightarrow> PaymentDetails \<Rightarrow> string
   \<Rightarrow> world \<times> (string \<times> go_error option) outcome" where
  "PayMerchantReceipt rt c w data createdReceiptsID =
     (let requestID = ''ReceiptsPay:'' @ OrderID (pd_Client data) in
      case sendRequest rt c w requestID ''receipts.pay''
             (VMap (Some [(''id'', VString createdReceiptsID),
                          (''token'', VString (card_Token (CardData (pd_Client data))))]))
             False [] of
        (w1, None, Some err) \<Rightarrow> (w1, Panic)
      | (w1, Some r, Some err) \<Rightarrow>
          (w1, Return ([], Some (Errorf_v
             ''failed receipts pay (error - %v request-id - %s receipts-id %s response - %v)''
             [ArgError err, ArgString requestID, ArgString createdReceiptsID,
              ArgErrorDetail (resp_Error r)])))
      | (w1, None, None) \<Rightarrow> (w1, Panic)
      | (w1, Some r, None) \<Rightarrow>
          (case (case resp_Result r of
                   None \<Rightarrow> Inr \<lparr>Receipt = None\<rparr>
                 | Some j \<Rightarrow> json_Unmarshal_ReceiptResponse rt j) of
             Inl err \<Rightarrow> (w1, Return ([], Some (Errorf_w ''result unmarshal error: '' err)))
           | Inr result \<Rightarrow>
               (case Receipt result of
                  None \<Rightarrow> (w1, Panic)
                | Some receipt \<Rightarrow>
                    (let paidReceiptsID = rcpt_ID receipt;
                         w2 = (if Logger c
                               then w1\<lparr>logged := logged w1 @
                                 [Printf ''receipts paid for order - %v request-id - %s transaction-id - %s''
                                    [ArgString (OrderID (pd_Client data)), ArgString requestID,
                                     ArgString paidReceiptsID]]\<rparr>
                               else w1)
                     in (w2, Return (paidReceiptsID, None))))))"

definition CreateAndPayMerchantReceipt ::
  "runtime \<Rightarrow> Client \<Rightarrow> world \<Rightarrow> PaymentDetails \<Rightarrow> world \<times> (string \<times> go_error option) outcome" where
  "CreateAndPayMerchantReceipt rt c w data =
     (case CreateMerchantReceipt rt c w data of
        (w1, Panic) \<Rightarrow> (w1, Panic)
      | (w1, Return (createdReceiptsID, Some err)) \<Rightarrow> (w1, Return ([], Some err))
      | (w1, Return (createdReceiptsID, None)) \<Rightarrow>
          (case PayMerchantReceipt rt c w1 data createdReceiptsID of
             (w2, Panic) \<Rightarrow> (w2, Panic)
           | (w2, Return (paidReceiptsID, Some err)) \<Rightarrow> (w2, Return ([], Some err))
           | (w2, Return (paidReceiptsID, None)) \<Rightarrow> (w2, Return (paidReceiptsID, None))))"

text \<open>\<open>GetReceiptStatus\<close>: \<open>resp.Receipt.State\<close> dereferences the receipt of the response.\<close>

definition GetReceiptStatus ::
  "runtime \<Rightarrow> Client \<Rightarrow> world \<Rightarrow> string \<Rightarrow> world \<times> (go_int \<times> go_error option) outcome" where
  "GetReceiptStatus rt c w receiptID =
     (case CheckReceipt rt c w receiptID of
        (w1, Panic) \<Rightarrow> (w1, Panic)
      | (w1, Return (resp, Some err)) \<Rightarrow> (w1, Return (- 1, Some err))
      | (w1, Return (None, None)) \<Rightarrow> (w1, Panic)
      | (w1, Return (Some r, None)) \<Rightarrow>
          (case Receipt r of
             None \<Rightarrow> (w1, Panic)
           | Some receipt \<Rightarrow> (w1, Return (rcpt_State receipt, None))))"

text \<open>The three helpers differ in the state they compare with.\<close>

definition state_is ::
  "go_int \<Rightarrow> runtime \<Rightarrow> Client \<Rightarrow> world \<Rightarrow> string \<Rightarrow> world \<times> (bool \<times> go_error option) outcome" where
  "state_is expected rt c w receiptID =
     (case GetReceiptStatus rt c w receiptID of
        (w1, Panic) \<Rightarrow> (w1, Panic)
      | (w1, Return (state, Some err)) \<Rightarrow> (w1, Return (False, Some err))
      | (w1, Return (state, None)) \<Rightarrow> (w1, Return (state = expected, None)))"

definition IsReceiptPaid ::
  "runtime \<Rightarrow> Client \<Rightarrow> world \<Rightarrow> string \<Rightarrow> world \<times> (bool \<times> go_error option) outcome" where
  "IsReceiptPaid = state_is 1"

definition IsReceiptCanceled ::
  "runtime \<Rightarrow> Client \<Rightarrow> world \<Rightarrow> string \<Rightarrow> world \<times> (bool \<times> go_error option) outcome" where
  "IsReceiptCanceled = state_is (- 1)"

definition IsReceiptExpired ::
  "runtime \<Rightarrow> Client \<Rightarrow> world \<Rightarrow> string \<Rightarrow> world \<times> (bool \<times> go_error option) outcome" where
  "IsReceiptExpired = state_is (- 2)"

text \<open>
  The loop of \<open>CreateMultipleReceipts\<close>, with the slice \<open>receiptIDs\<close> built so far; each
  \<open>continue\<close> is the recursive call on the rest with the slice unchanged.
\<close>

fun CreateMultipleReceipts_loop ::
  "runtime \<Rightarrow> Client \<Rightarrow> world \<Rightarrow> string list \<Rightarrow> go_map list \<Rightarrow> world \<times> string list outcome" where
  "CreateMultipleReceipts_loop rt c w receiptIDs [] = (w, Return receiptIDs)"
| "CreateMultipleReceipts_loop rt c w receiptIDs (receipt # rest) =
     (case assert_int64 (index_map receipt ''amount'') of
        (amount, False) \<Rightarrow> CreateMultipleReceipts_loop rt c w receiptIDs rest
      | (amount, True) \<Rightarrow>
          (case assert_map (index_map receipt ''account'') of
             (account, False) \<Rightarrow> CreateMultipleReceipts_loop rt c w receiptIDs rest
           | (account, True) \<Rightarrow>
               (let description = fst (assert_string (index_map receipt ''description''));
                    detail = fst (assert_map (index_map receipt ''detail''))
                in case CreateReceipt rt c w amount account description detail of
                     (w1, Panic) \<Rightarrow> (w1, Panic)
                   | (w1, Return (resp, Some err)) \<Rightarrow>
                       CreateMultipleReceipts_loop rt c w1 receiptIDs rest
                   | (w1, Return (None, None)) \<Rightarrow> (w1, Panic)
                   | (w1, Return (Some r, None)) \<Rightarrow>
                       (case Receipt r of
                          None \<Rightarrow> (w1, Panic)
                        | Some created \<Rightarrow>
                            CreateMultipleReceipts_loop rt c w1
                              (receiptIDs @ [rcpt_ID created]) rest))))"

definition CreateMultipleReceipts ::
  "runtime \<Rightarrow> Client \<Rightarrow> world \<Rightarrow> go_map list \<Rightarrow> world \<times> (string list \<times> go_error option) outcome" where
  "CreateMultipleReceipts rt c w receipts =
     (case CreateMultipleReceipts_loop rt c w [] receipts of
        (w1, Panic) \<Rightarrow> (w1, Panic)
      | (w1, Return receiptIDs) \<Rightarrow> (w1, Return (receiptIDs, None)))"

fun CancelMultipleReceipts_loop ::
  "runtime \<Rightarrow> Client \<Rightarrow> world \<Rightarrow> string list \<Rightarrow> world \<times> unit outcome" where
  "CancelMultipleReceipts_loop rt c w [] = (w, Return ())"
| "CancelMultipleReceipts_loop rt c w (receiptID # rest) =
     (case CancelReceipt rt c w receiptID of
        (w1, Panic) \<Rightarrow> (w1, Panic)
      | (w1, Return (resp, Some err)) \<Rightarrow>
          CancelMultipleReceipts_loop rt c
            (if Logger c
             then w1\<lparr>logged := logged w1 @
                    [Printf ''Failed to cancel receipt %s: %v'' [ArgString receiptID, ArgError err]]\<rparr>
             else w1)
            rest
      | (w1, Return (resp, None)) \<Rightarrow> CancelMultipleReceipts_loop rt c w1 rest)"

definition CancelMultipleReceipts ::
  "runtime \<Rightarrow> Client \<Rightarrow> world \<Rightarrow> string list \<Rightarrow> world \<times> go_error option outcome" where
  "CancelMultipleReceipts rt c w receiptIDs =
     (case CancelMultipleReceipts_loop rt c w receiptIDs of
        (w1, Panic) \<Rightarrow> (w1, Panic)
      | (w1, Return u) \<Rightarrow> (w1, Return None))"

section \<open>A stub gateway\<close>

text \<open>
  Concrete collaborators on which the operations can be run: a decoder that knows a few
  bodies, transports that answer with a fixed body, by gateway method, or not at all, and
  a client configured with one of them.
\<close>

definition receipt_108 :: Receipt where
  "receipt_108 =
     \<lparr>rcpt_ID = ''receipt_108'', rcpt_CreateTime = 1755113788877, rcpt_PayTime = 0,
      rcpt_CancelTime = 0, rcpt_State = 0, rcpt_Type = 0, rcpt_External = False,
      rcpt_Operation = 0, rcpt_Description = ''DESC'', rcpt_Amount = 10000,
      rcpt_Currency = 860, rcpt_Commission = 0\<rparr>"

definition empty_envelope :: Response where
  "empty_envelope =
     \<lparr>resp_Jsonrpc = ''2.0'', resp_ID = ''1'', resp_Result = None, resp_Error = None\<rparr>"

definition stub_decode :: "string \<Rightarrow> go_error + Response" where
  "stub_decode body =
     (if body = ''empty'' then Inr empty_envelope
      else if body = ''receipt'' then Inr (empty_envelope\<lparr>resp_Result := Some ''receipt_108''\<rparr>)
      else if body = ''cancelled'' then Inr (empty_envelope\<lparr>resp_Result := Some ''cancelled_108''\<rparr>)
      else if body = ''paid'' then Inr (error_envelope ReceiptAlreadyPaidErrorCode)
      else if body = ''missing'' then Inr (error_envelope ReceiptNotFoundErrorCode)
      else Inl (Foreign ''invalid character'' [] []))"

definition stub_runtime :: runtime where
  "stub_runtime =
     \<lparr>json_Marshal = (\<lambda>v. Inr ''body''),
      json_Unmarshal_Response = stub_decode,
      json_Unmarshal_ReceiptResponse =
        (\<lambda>j. if j = ''receipt_108'' then Inr \<lparr>Receipt = Some receipt_108\<rparr>
             else if j = ''cancelled_108''
               then Inr \<lparr>Receipt = Some (receipt_108\<lparr>rcpt_State := - 1\<rparr>)\<rparr>
             else Inl (Foreign ''cannot unmarshal'' [] [])),
      json_Unmarshal_Receipts = (\<lambda>j. Inl (Foreign ''cannot unmarshal'' [] [])),
      http_NewRequest = (\<lambda>url. None),
      time_Now = (\<lambda>n. 0)\<rparr>"

definition replying :: "nat \<Rightarrow> string \<Rightarrow> request list \<Rightarrow> request \<Rightarrow> http_outcome" where
  "replying status body history rq = DoResponse status (Inr body)"

definition failing :: "go_error \<Rightarrow> request list \<Rightarrow> request \<Rightarrow> http_outcome" where
  "failing err history rq = DoError err"

text \<open>Creates the receipt, then refuses to pay it: the gateway reports it as already paid.\<close>

definition create_ok_pay_refused :: "request list \<Rightarrow> request \<Rightarrow> http_outcome" where
  "create_ok_pay_refused history rq =
     (if value_index (rq_data rq) ''method'' = VString ''receipts.create''
      then DoResponse 200 (Inr ''receipt'')
      else DoResponse 200 (Inr ''paid''))"

definition stub_client :: "(request list \<Rightarrow> request \<Rightarrow> http_outcome) \<Rightarrow> Client" where
  "stub_client transport =
     \<lparr>Headers = \<lparr>paymeID = ''merchant'', paymeKey = ''key''\<rparr>,
      BaseURL = ''https://checkout.test.paycom.uz/api'',
      HTTPClient = transport, Logger = False, Timeout = 30000000000,
      IsTestMode = True, RequisiteName = ''order_id''\<rparr>"

definition world0 :: world where
  "world0 = \<lparr>sent = [], logged = [], clock_reads = 0\<rparr>"

definition order_7 :: PaymentDetails where
  "order_7 =
     \<lparr>pd_Client = \<lparr>OrderID = ''7'', CardData = \<lparr>card_ID = ''9999'', card_Token = ''token_0123456789''\<rparr>\<rparr>,
      pd_Driver = \<lparr>OrderID = [], CardData = \<lparr>card_ID = [], card_Token = []\<rparr>\<rparr>,
      pd_Amount = 5\<rparr>"

text \<open>The requests a call added to the world.\<close>

definition sent_since :: "world \<Rightarrow> world \<Rightarrow> request list" where
  "sent_since w w' = drop (length (sent w)) (sent w')"

text \<open>The gateway method and the \<open>amount\<close> parameter of a recorded request.\<close>

definition rpc_method :: "request \<Rightarrow> go_value" where
  "rpc_method rq = value_index (rq_data rq) ''method''"

definition outbound_amount :: "request \<Rightarrow> go_value" where
  "outbound_amount rq = value_index (value_index (rq_data rq) ''params'') ''amount''"

text \<open>
  \<open>sends P w w'\<close>: from \<open>w\<close> to \<open>w'\<close> requests were only added, and each added request
  satisfies \<open>P\<close>.
\<close>

definition sends :: "(request \<Rightarrow> bool) \<Rightarrow> world \<Rightarrow> world \<Rightarrow> bool" where
  "sends P w w' = (take (length (sent w)) (sent w') = sent w \<and> list_all P (sent_since w w'))"


text \<open>
  The round trip of the specification's testable properties, on the code's two mappings:
  the code has a kind, and the code that \<open>GetErrorCode\<close> gives for that kind resolves to
  the same kind again.
\<close>

definition round_trip :: "go_int \<Rightarrow> bool" where
  "round_trip code =
     (case kindOf code of
        None \<Rightarrow> False
      | Some kind \<Rightarrow> kindOf (GetErrorCode kind) = Some kind)"

section \<open>Properties of the error taxonomy\<close>

lemma handleErrorResponse_fst: "fst (handleErrorResponse r) = r"
  by (simp add: handleErrorResponse_def Let_def split: option.splits)

lemma handleErrorResponse_eq: "handleErrorResponse r = (r, snd (handleErrorResponse r))"
  by (metis handleErrorResponse_fst prod.collapse)

lemma handleErrorResponse_no_error:
  "resp_Error r = None \<Longrightarrow> handleErrorResponse r = (r, None)"
  by (simp add: handleErrorResponse_def)

lemmas kindOf_eval = kindOf_def handleErrorResponse_def error_envelope_def error_code_defs

text \<open>
  The eleven codes that the \<open>switch\<close> of \<open>handleErrorResponse\<close> lists resolve to the kind
  of their row of the table, the two card codes to the one kind \<open>ErrCardNotFound\<close>.
\<close>

lemma kindOf_listed_codes:
  "kindOf InvalidAmountErrorCode = Some ErrInvalidAmount"
  "kindOf InvalidParamsErrorCode = Some ErrInvalidParams"
  "kindOf ReceiptNotFoundErrorCode = Some ErrReceiptNotFound"
  "kindOf ReceiptAlreadyPaidErrorCode = Some ErrReceiptAlreadyPaid"
  "kindOf ReceiptExpiredErrorCode = Some ErrReceiptExpired"
  "kindOf CardNotFoundErrorCode = Some ErrCardNotFound"
  "kindOf CardNumberNotFoundCode = Some ErrCardNotFound"
  "kindOf InvalidFormatTokenErrorCode = Some ErrInvalidFormatToken"
  "kindOf CardExpiredCode = Some ErrCardExpired"
  "kindOf PaycomServiceNotAvailableCode = Some ErrPaycomServiceNotAvailable"
  "kindOf ProcessingCenterNotAvailableCode = Some ErrProcessingCenterNotAvailable"
  by (simp_all add: kindOf_eval)

text \<open>Every other code takes the \<open>default\<close> branch: the generic error unless it is 0.\<close>

lemma kindOf_unlisted:
  "code \<notin> {InvalidAmountErrorCode, InvalidParamsErrorCode, CardNotFoundErrorCode,
      InvalidFormatTokenErrorCode, CardNumberNotFoundCode, CardExpiredCode,
      ProcessingCenterNotAvailableCode, PaycomServiceNotAvailableCode,
      ReceiptNotFoundErrorCode, ReceiptAlreadyPaidErrorCode, ReceiptExpiredErrorCode} \<Longrightarrow>
   kindOf code = (if code \<noteq> 0 then Some ErrPaymeError else None)"
  by (simp add: kindOf_def handleErrorResponse_def error_envelope_def)

text \<open>
  C1. The claim: every code of the taxonomy table resolves to the kind of its row, in
  particular -31630 to P2PIdenticalCards, -32504 to PermissionDenied, -32700 to
  ParseError, -32601 to MethodNotFound and -32600 to InvalidRequest. The \<open>switch\<close> of
  \<open>handleErrorResponse\<close> has no case for these five codes, although the package declares
  their constants and their sentinel errors and \<open>GetErrorCode\<close> and \<open>IsPaymeError\<close> know
  them: an envelope carrying one of them resolves to the generic \<open>ErrPaymeError\<close>, not to
  the kind of its row.
\<close>

theorem five_table_rows_fall_to_generic:
  "map_of taxonomy_table P2PIdenticalCardsErrorCode = Some ErrP2PIdenticalCards \<and>
   kindOf P2PIdenticalCardsErrorCode = Some ErrPaymeError \<and>
   map_of taxonomy_table PermissionDeniedCode = Some ErrPermissionDenied \<and>
   kindOf PermissionDeniedCode = Some ErrPaymeError \<and>
   map_of taxonomy_table ParseErrorCode = Some ErrParseError \<and>
   kindOf ParseErrorCode = Some ErrPaymeError \<and>
   map_of taxonomy_table MethodNotFoundCode = Some ErrMethodNotFound \<and>
   kindOf MethodNotFoundCode = Some ErrPaymeError \<and>
   map_of taxonomy_table InvalidRequestCode = Some ErrInvalidRequest \<and>
   kindOf InvalidRequestCode = Some ErrPaymeError"
  by (simp add: kindOf_eval taxonomy_table_def)

text \<open>The round trip holds on the eleven codes that the \<open>switch\<close> lists.\<close>

lemma round_trip_listed_codes:
  "round_trip InvalidAmountErrorCode" "round_trip InvalidParamsErrorCode"
  "round_trip ReceiptNotFoundErrorCode" "round_trip ReceiptAlreadyPaidErrorCode"
  "round_trip ReceiptExpiredErrorCode" "round_trip CardNotFoundErrorCode"
  "round_trip CardNumberNotFoundCode" "round_trip InvalidFormatTokenErrorCode"
  "round_trip CardExpiredCode" "round_trip PaycomServiceNotAvailableCode"
  "round_trip ProcessingCenterNotAvailableCode"
  by (simp_all add: round_trip_def kindOf_listed_codes)

text \<open>
  C2. The claim: for every code of the table the code has a kind, and the code that
  \<open>GetErrorCode\<close> returns for that kind resolves to the same kind. On -32504 the pipeline
  resolves to \<open>ErrPaymeError\<close>, \<open>GetErrorCode\<close> has no code for it and returns 0, and an
  envelope with the code 0 resolves to no error at all: the round trip fails there, and
  on the four other codes that the \<open>switch\<close> does not list.
\<close>

theorem round_trip_fails_on_PermissionDenied:
  "kindOf PermissionDeniedCode = Some ErrPaymeError \<and>
   GetErrorCode ErrPaymeError = 0 \<and>
   kindOf (GetErrorCode ErrPaymeError) = None \<and>
   \<not> round_trip PermissionDeniedCode \<and> \<not> round_trip P2PIdenticalCardsErrorCode \<and>
   \<not> round_trip ParseErrorCode \<and> \<not> round_trip MethodNotFoundCode \<and>
   \<not> round_trip InvalidRequestCode"
  by (simp add: round_trip_def kindOf_eval)

section \<open>Properties of the validation rules\<close>

text \<open>
  C8. For every int64 amount, \<open>ValidateAmount\<close> returns nil exactly when the amount is
  positive and at most 999999999999, and the error it returns otherwise is
  \<open>ErrInvalidAmount\<close>.
\<close>

theorem ValidateAmount_iff:
  "(ValidateAmount a = None \<longleftrightarrow> 0 < sint a \<and> sint a \<le> 999999999999) \<and>
   (ValidateAmount a \<noteq> None \<longrightarrow> ValidateAmount a = Some ErrInvalidAmount)"
  by (simp add: ValidateAmount_def)

theorem ValidateAmount_iff_witness:
  "ValidateAmount 0 = Some ErrInvalidAmount \<and> ValidateAmount 999999999999 = None \<and>
   ValidateAmount 1000000000000 \<noteq> None \<and> ValidateAmount (- 1) \<noteq> None"
  using ValidateAmount_iff [of 0] ValidateAmount_iff [of 999999999999]
    ValidateAmount_iff [of 1000000000000] ValidateAmount_iff [of "- 1"]
  by simp

section \<open>Properties of the pipeline\<close>

lemma errors_Is_refl: "errors_Is e e"
  by (cases "(e, e)" rule: errors_Is.cases) auto

text \<open>
  The pipeline returns no envelope together with an error, or the decoded envelope
  together with what \<open>handleErrorResponse\<close> resolves for it; never neither.
\<close>

lemma sendRequest_cases:
  assumes "sendRequest rt c w rid m ps wid t = (w', resp, err)"
  shows "(resp = None \<and> err \<noteq> None) \<or> (\<exists>r. resp = Some r \<and> err = snd (handleErrorResponse r))"
  using assms
  apply (simp only: sendRequest_def Let_def)
  apply (subst (asm) (1) handleErrorResponse_eq)
  apply (auto split: sum.splits option.splits http_outcome.splits if_splits)
  done

text \<open>What the pipeline returns once the transport has answered with a readable body.\<close>

lemma sendRequest_decoded:
  assumes "json_Marshal rt (envelope_data rid m ps) = Inr body"
    and "http_NewRequest rt (BaseURL c) = None"
    and "HTTPClient c (sent w)
           (new_request c (if length t > 0 then t ! 0 else Timeout c) (envelope_data rid m ps) body wid)
         = DoResponse status (Inr responseBody)"
    and "json_Unmarshal_Response rt responseBody = Inr r"
  shows "snd (sendRequest rt c w rid m ps wid t) = (Some r, snd (handleErrorResponse r))"
  using assms
  apply (simp only: sendRequest_def Let_def)
  apply (subst (1) handleErrorResponse_eq)
  apply (simp split: option.splits)
  done

lemmas stub_defs = stub_runtime_def stub_client_def stub_decode_def replying_def failing_def
  world0_def empty_envelope_def

text \<open>
  C5. An envelope whose error field is nil yields a nil error: from
  \<open>handleErrorResponse\<close>, from any run of \<open>sendRequest\<close> that returns such an envelope, and
  in particular when the transport answers with any HTTP status \<open>status\<close> and a body
  that decodes to such an envelope (the status is never looked at).
\<close>

theorem nil_error_field_gives_nil_error:
  "(resp_Error r = None \<longrightarrow> handleErrorResponse r = (r, None)) \<and>
   (sendRequest rt c w rid m ps wid t = (w', Some r, err) \<longrightarrow> resp_Error r = None \<longrightarrow> err = None) \<and>
   (json_Marshal rt (envelope_data rid m ps) = Inr body \<longrightarrow>
    http_NewRequest rt (BaseURL c) = None \<longrightarrow>
    HTTPClient c (sent w)
      (new_request c (if length t > 0 then t ! 0 else Timeout c) (envelope_data rid m ps) body wid)
      = DoResponse status (Inr responseBody) \<longrightarrow>
    json_Unmarshal_Response rt responseBody = Inr r \<longrightarrow>
    resp_Error r = None \<longrightarrow>
    snd (sendRequest rt c w rid m ps wid t) = (Some r, None))"
proof (intro conjI impI)
  assume "resp_Error r = None"
  then show "handleErrorResponse r = (r, None)" by (rule handleErrorResponse_no_error)
next
  assume s: "sendRequest rt c w rid m ps wid t = (w', Some r, err)" and n: "resp_Error r = None"
  from sendRequest_cases [OF s] have "err = snd (handleErrorResponse r)" by simp
  with n show "err = None" by (simp add: handleErrorResponse_no_error)
next
  assume a: "json_Marshal rt (envelope_data rid m ps) = Inr body"
    and b: "http_NewRequest rt (BaseURL c) = None"
    and d: "HTTPClient c (sent w)
      (new_request c (if length t > 0 then t ! 0 else Timeout c) (envelope_data rid m ps) body wid)
      = DoResponse status (Inr responseBody)"
    and e: "json_Unmarshal_Response rt responseBody = Inr r"
    and n: "resp_Error r = None"
  from sendRequest_decoded [OF a b d e] n
  show "snd (sendRequest rt c w rid m ps wid t) = (Some r, None)"
    by (simp add: handleErrorResponse_no_error)
qed

text \<open>The stub gateway answers with status 500 and a body without result or error.\<close>

theorem nil_error_field_gives_nil_error_witness:
  "handleErrorResponse empty_envelope = (empty_envelope, None) \<and>
   snd (sendRequest stub_runtime (stub_client (replying 500 ''empty'')) world0
          ''ReceiptsCheck:0'' ''receipts.check'' (VMap (Some [(''id'', VString ''receipt_108'')]))
          False []) = (Some empty_envelope, None)"
  using nil_error_field_gives_nil_error
    [of empty_envelope stub_runtime "stub_client (replying 500 ''empty'')" world0
        "''ReceiptsCheck:0''" "''receipts.check''" "VMap (Some [(''id'', VString ''receipt_108'')])"
        False "[]"
        "fst (sendRequest stub_runtime (stub_client (replying 500 ''empty'')) world0
          ''ReceiptsCheck:0'' ''receipts.check'' (VMap (Some [(''id'', VString ''receipt_108'')]))
          False [])"
        None "''body''" 500 "''empty''"]
  by (simp add: stub_defs)

lemma unwraps_to_errors_Is: "unwraps_to e target \<Longrightarrow> errors_Is e target"
  by (induction e target rule: unwraps_to.induct) (auto simp: list_ex_iff)

text \<open>
  C7, as claimed: a transport failure for any reason other than the exceeded deadline of
  the derived timeout gives a transport error that wraps the cause, never Timeout. The
  request outlasts \<open>http.Client.Timeout\<close>: \<open>Do\<close> fails with net/http's timeout error, which
  is not \<open>context.DeadlineExceeded\<close> and does not wrap it, and \<open>sendRequest\<close> returns
  \<open>ErrTimeout\<close>.
\<close>

theorem client_timeout_surfaces_as_Timeout:
  "\<not> unwraps_to (url_Error http_timeoutError) context_DeadlineExceeded \<and>
   snd (sendRequest stub_runtime (stub_client (failing (url_Error http_timeoutError)))
          world0 ''ReceiptsCheck:0'' ''receipts.check'' VNil False []) = (None, Some ErrTimeout)"
  by (simp add: sendRequest_def Let_def url_Error_def http_timeoutError_def stub_runtime_def
        stub_client_def failing_def)

text \<open>
  C7, amended. When \<open>HTTPClient.Do\<close> fails with an error: if \<open>errors.Is\<close> reports it as
  \<open>context.DeadlineExceeded\<close>, \<open>sendRequest\<close> returns \<open>ErrTimeout\<close>, and that is so whenever
  the error is or wraps \<open>context.DeadlineExceeded\<close> (the deadline of the derived timeout
  was exceeded) and also for an error whose \<open>Is\<close> method says so; for every other error
  it returns the error that wraps the cause under the prefix "http request error: ",
  which is not \<open>ErrTimeout\<close> and from which \<open>errors.Is\<close> finds the cause.
\<close>

theorem transport_failure_is_Timeout_or_wrapped:
  "json_Marshal rt (envelope_data rid m ps) = Inr body \<longrightarrow>
   http_NewRequest rt (BaseURL c) = None \<longrightarrow>
   HTTPClient c (sent w)
     (new_request c (if length t > 0 then t ! 0 else Timeout c) (envelope_data rid m ps) body wid)
     = DoError cause \<longrightarrow>
   snd (sendRequest rt c w rid m ps wid t) =
     (None, Some (if errors_Is cause context_DeadlineExceeded then ErrTimeout
                  else Errorf_w ''http request error: '' cause)) \<and>
   (unwraps_to cause context_DeadlineExceeded \<longrightarrow>
      snd (sendRequest rt c w rid m ps wid t) = (None, Some ErrTimeout)) \<and>
   Errorf_w ''http request error: '' cause \<noteq> ErrTimeout \<and>
   errors_Is (Errorf_w ''http request error: '' cause) cause"
  by (simp add: sendRequest_def Let_def errors_Is_refl unwraps_to_errors_Is)

text \<open>
  The deadline of the request's context exceeded, the client's own timeout exceeded,
  and a connection that is refused.
\<close>

theorem transport_failure_is_Timeout_or_wrapped_witness:
  "snd (sendRequest stub_runtime (stub_client (failing (url_Error context_DeadlineExceeded)))
          world0 ''ReceiptsCheck:0'' ''receipts.check'' VNil False []) = (None, Some ErrTimeout) \<and>
   snd (sendRequest stub_runtime (stub_client (failing (url_Error http_timeoutError)))
          world0 ''ReceiptsCheck:0'' ''receipts.check'' VNil False []) = (None, Some ErrTimeout) \<and>
   snd (sendRequest stub_runtime
          (stub_client (failing (url_Error (Foreign ''dial tcp: connection refused'' [] []))))
          world0 ''ReceiptsCheck:0'' ''receipts.check'' VNil False [])
     = (None, Some (Errorf_w ''http request error: ''
                      (url_Error (Foreign ''dial tcp: connection refused'' [] []))))"
proof -
  have d: "unwraps_to (url_Error context_DeadlineExceeded) context_DeadlineExceeded"
    by (simp add: url_Error_def)
  have k: "errors_Is (url_Error http_timeoutError) context_DeadlineExceeded"
    by (simp add: url_Error_def http_timeoutError_def)
  have r: "\<not> errors_Is (url_Error (Foreign ''dial tcp: connection refused'' [] []))
             context_DeadlineExceeded"
    by (simp add: url_Error_def)
  note at = transport_failure_is_Timeout_or_wrapped
    [where rt = stub_runtime and rid = "''ReceiptsCheck:0''" and m = "''receipts.check''"
       and ps = VNil and body = "''body''" and w = world0 and t = "[]" and wid = False]
  from at [where c = "stub_client (failing (url_Error context_DeadlineExceeded))"
             and cause = "url_Error context_DeadlineExceeded"] d
  have one: "snd (sendRequest stub_runtime (stub_client (failing (url_Error context_DeadlineExceeded)))
          world0 ''ReceiptsCheck:0'' ''receipts.check'' VNil False []) = (None, Some ErrTimeout)"
    by (simp add: stub_defs url_Error_def http_timeoutError_def)
  from at [where c = "stub_client (failing (url_Error http_timeoutError))"
             and cause = "url_Error http_timeoutError"] k
  have two: "snd (sendRequest stub_runtime (stub_client (failing (url_Error http_timeoutError)))
          world0 ''ReceiptsCheck:0'' ''receipts.check'' VNil False []) = (None, Some ErrTimeout)"
    by (simp add: stub_defs url_Error_def http_timeoutError_def)
  from at [where c = "stub_client (failing (url_Error (Foreign ''dial tcp: connection refused'' [] [])))"
             and cause = "url_Error (Foreign ''dial tcp: connection refused'' [] [])"] r
  have three: "snd (sendRequest stub_runtime
          (stub_client (failing (url_Error (Foreign ''dial tcp: connection refused'' [] []))))
          world0 ''ReceiptsCheck:0'' ''receipts.check'' VNil False [])
     = (None, Some (Errorf_w ''http request error: ''
                      (url_Error (Foreign ''dial tcp: connection refused'' [] []))))"
    by (simp add: stub_defs url_Error_def http_timeoutError_def)
  from one two three show ?thesis by simp
qed

text \<open>
  The exit after \<open>io.ReadAll\<close> has no test with \<open>errors.Is\<close>: whatever fails while the
  body is read, an exceeded deadline included, comes back wrapped under the prefix
  "response body read error: ".
\<close>

lemma body_read_failure_is_wrapped:
  assumes "json_Marshal rt (envelope_data rid m ps) = Inr body"
    and "http_NewRequest rt (BaseURL c) = None"
    and "HTTPClient c (sent w)
           (new_request c (if length t > 0 then t ! 0 else Timeout c) (envelope_data rid m ps) body wid)
         = DoResponse status (Inl cause)"
  shows "snd (sendRequest rt c w rid m ps wid t)
         = (None, Some (Errorf_w ''response body read error: '' cause))"
  using assms by (simp add: sendRequest_def Let_def)

lemma body_read_deadline_is_not_Timeout:
  "snd (sendRequest stub_runtime
          (stub_client (\<lambda>history rq. DoResponse 200 (Inl context_DeadlineExceeded)))
          world0 ''ReceiptsCheck:0'' ''receipts.check'' VNil False [])
     = (None, Some (Errorf_w ''response body read error: '' context_DeadlineExceeded))"
  by (simp add: sendRequest_def Let_def stub_runtime_def stub_client_def)

section \<open>Properties of the receipt operations\<close>

lemma after_send_nil_result:
  "resp_Result r = None \<Longrightarrow>
   after_send rt (w2, Some r, None) = (w2, Return (Some \<lparr>Receipt = None\<rparr>, None))"
  by (simp add: after_send_def parse_result_def)

lemma by_receipt_id_nil_result:
  assumes "ValidateReceiptID receiptID = None"
    and "GenerateRequestID rt w prefix = (w1, requestID)"
    and "sendRequest rt c w1 requestID method (VMap (Some [(''id'', VString receiptID)])) False []
         = (w2, Some r, None)"
    and "resp_Result r = None"
  shows "by_receipt_id prefix method rt c w receiptID = (w2, Return (Some \<lparr>Receipt = None\<rparr>, None))"
  using assms by (simp add: by_receipt_id_def after_send_nil_result)

text \<open>
  C6. For each of the eight receipt operations: when its inputs pass validation and its
  call of the pipeline returns an envelope, a nil error, and the envelope's result is
  nil, the operation returns the zero-valued typed response (a nil receipt; for
  \<open>GetAllReceipts\<close> no receipts) together with a nil error.
\<close>

theorem nil_result_gives_zero_response:
  "(ValidateAmount amount = None \<longrightarrow>
    GenerateRequestID rt w ''ReceiptsCreate'' = (w1, requestID) \<longrightarrow>
    sendRequest rt c w1 requestID ''receipts.create''
      (CreateReceipt_params amount account description detail) False [] = (w2, Some r, None) \<longrightarrow>
    resp_Result r = None \<longrightarrow>
    CreateReceipt rt c w amount account description detail
      = (w2, Return (Some \<lparr>Receipt = None\<rparr>, None))) \<and>
   (ValidateReceiptID receiptID = None \<longrightarrow> ValidateCardToken token = None \<longrightarrow>
    GenerateRequestID rt w ''ReceiptsPay'' = (w1, requestID) \<longrightarrow>
    sendRequest rt c w1 requestID ''receipts.pay''
      (VMap (Some [(''id'', VString receiptID), (''token'', VString token)])) False []
      = (w2, Some r, None) \<longrightarrow>
    resp_Result r = None \<longrightarrow>
    PayReceipt rt c w receiptID token = (w2, Return (Some \<lparr>Receipt = None\<rparr>, None))) \<and>
   (ValidateReceiptID receiptID = None \<longrightarrow>
    GenerateRequestID rt w ''ReceiptsSend'' = (w1, requestID) \<longrightarrow>
    sendRequest rt c w1 requestID ''receipts.send''
      (VMap (Some [(''id'', VString receiptID)])) False [] = (w2, Some r, None) \<longrightarrow>
    resp_Result r = None \<longrightarrow>
    SendReceipt rt c w receiptID = (w2, Return (Some \<lparr>Receipt = None\<rparr>, None))) \<and>
   (ValidateReceiptID receiptID = None \<longrightarrow>
    GenerateRequestID rt w ''ReceiptsCancel'' = (w1, requestID) \<longrightarrow>
    sendRequest rt c w1 requestID ''receipts.cancel''
      (VMap (Some [(''id'', VString receiptID)])) False [] = (w2, Some r, None) \<longrightarrow>
    resp_Result r = None \<longrightarrow>
    CancelReceipt rt c w receiptID = (w2, Return (Some \<lparr>Receipt = None\<rparr>, None))) \<and>
   (ValidateReceiptID receiptID = None \<longrightarrow>
    GenerateRequestID rt w ''ReceiptsCheck'' = (w1, requestID) \<longrightarrow>
    sendRequest rt c w1 requestID ''receipts.check''
      (VMap (Some [(''id'', VString receiptID)])) False [] = (w2, Some r, None) \<longrightarrow>
    resp_Result r = None \<longrightarrow>
    CheckReceipt rt c w receiptID = (w2, Return (Some \<lparr>Receipt = None\<rparr>, None))) \<and>
   (ValidateReceiptID receiptID = None \<longrightarrow>
    GenerateRequestID rt w ''ReceiptsGet'' = (w1, requestID) \<longrightarrow>
    sendRequest rt c w1 requestID ''receipts.get''
      (VMap (Some [(''id'', VString receiptID)])) False [] = (w2, Some r, None) \<longrightarrow>
    resp_Result r = None \<longrightarrow>
    GetReceipt rt c w receiptID = (w2, Return (Some \<lparr>Receipt = None\<rparr>, None))) \<and>
   (GenerateRequestID rt w ''ReceiptsGetAll'' = (w1, requestID) \<longrightarrow>
    sendRequest rt c w1 requestID ''receipts.get_all''
      (VMap (Some [(''from'', VInt64 t_from), (''to'', VInt64 t_to), (''count'', VInt count)])) False []
      = (w2, Some r, None) \<longrightarrow>
    resp_Result r = None \<longrightarrow>
    GetAllReceipts rt c w t_from t_to count = (w2, Return (Some \<lparr>Receipts = []\<rparr>, None))) \<and>
   (ValidateReceiptID receiptID = None \<longrightarrow>
    GenerateRequestID rt w ''ReceiptsSetFiscalData'' = (w1, requestID) \<longrightarrow>
    sendRequest rt c w1 requestID ''receipts.set_fiscal_data''
      (VMap (Some [(''id'', VString receiptID), (''fiscal_data'', VMap fiscalData)])) False []
      = (w2, Some r, None) \<longrightarrow>
    resp_Result r = None \<longrightarrow>
    SetFiscalData rt c w receiptID fiscalData = (w2, Return (Some \<lparr>Receipt = None\<rparr>, None)))"
proof (intro conjI impI)
  show "CreateReceipt rt c w amount account description detail
      = (w2, Return (Some \<lparr>Receipt = None\<rparr>, None))"
    if "ValidateAmount amount = None" "GenerateRequestID rt w ''ReceiptsCreate'' = (w1, requestID)"
      "sendRequest rt c w1 requestID ''receipts.create''
        (CreateReceipt_params amount account description detail) False [] = (w2, Some r, None)"
      "resp_Result r = None"
    using that by (simp add: CreateReceipt_def after_send_nil_result)
  show "PayReceipt rt c w receiptID token = (w2, Return (Some \<lparr>Receipt = None\<rparr>, None))"
    if "ValidateReceiptID receiptID = None" "ValidateCardToken token = None"
      "GenerateRequestID rt w ''ReceiptsPay'' = (w1, requestID)"
      "sendRequest rt c w1 requestID ''receipts.pay''
        (VMap (Some [(''id'', VString receiptID), (''token'', VString token)])) False []
        = (w2, Some r, None)"
      "resp_Result r = None"
    using that by (simp add: PayReceipt_def after_send_nil_result)
  show "SendReceipt rt c w receiptID = (w2, Return (Some \<lparr>Receipt = None\<rparr>, None))"
    if "ValidateReceiptID receiptID = None" "GenerateRequestID rt w ''ReceiptsSend'' = (w1, requestID)"
      "sendRequest rt c w1 requestID ''receipts.send''
        (VMap (Some [(''id'', VString receiptID)])) False [] = (w2, Some r, None)"
      "resp_Result r = None"
    unfolding SendReceipt_def using that by (rule by_receipt_id_nil_result)
  show "CancelReceipt rt c w receiptID = (w2, Return (Some \<lparr>Receipt = None\<rparr>, None))"
    if "ValidateReceiptID receiptID = None" "GenerateRequestID rt w ''ReceiptsCancel'' = (w1, requestID)"
      "sendRequest rt c w1 requestID ''receipts.cancel''
        (VMap (Some [(''id'', VString receiptID)])) False [] = (w2, Some r, None)"
      "resp_Result r = None"
    unfolding CancelReceipt_def using that by (rule by_receipt_id_nil_result)
  show "CheckReceipt rt c w receiptID = (w2, Return (Some \<lparr>Receipt = None\<rparr>, None))"
    if "ValidateReceiptID receiptID = None" "GenerateRequestID rt w ''ReceiptsCheck'' = (w1, requestID)"
      "sendRequest rt c w1 requestID ''receipts.check''
        (VMap (Some [(''id'', VString receiptID)])) False [] = (w2, Some r, None)"
      "resp_Result r = None"
    unfolding CheckReceipt_def using that by (rule by_receipt_id_nil_result)
  show "GetReceipt rt c w receiptID = (w2, Return (Some \<lparr>Receipt = None\<rparr>, None))"
    if "ValidateReceiptID receiptID = None" "GenerateRequestID rt w ''ReceiptsGet'' = (w1, requestID)"
      "sendRequest rt c w1 requestID ''receipts.get''
        (VMap (Some [(''id'', VString receiptID)])) False [] = (w2, Some r, None)"
      "resp_Result r = None"
    unfolding GetReceipt_def using that by (rule by_receipt_id_nil_result)
  show "GetAllReceipts rt c w t_from t_to count = (w2, Return (Some \<lparr>Receipts = []\<rparr>, None))"
    if "GenerateRequestID rt w ''ReceiptsGetAll'' = (w1, requestID)"
      "sendRequest rt c w1 requestID ''receipts.get_all''
        (VMap (Some [(''from'', VInt64 t_from), (''to'', VInt64 t_to), (''count'', VInt count)])) False []
        = (w2, Some r, None)"
      "resp_Result r = None"
    using that by (simp add: GetAllReceipts_def)
  show "SetFiscalData rt c w receiptID fiscalData = (w2, Return (Some \<lparr>Receipt = None\<rparr>, None))"
    if "ValidateReceiptID receiptID = None"
      "GenerateRequestID rt w ''ReceiptsSetFiscalData'' = (w1, requestID)"
      "sendRequest rt c w1 requestID ''receipts.set_fiscal_data''
        (VMap (Some [(''id'', VString receiptID), (''fiscal_data'', VMap fiscalData)])) False []
        = (w2, Some r, None)"
      "resp_Result r = None"
    using that by (simp add: SetFiscalData_def after_send_nil_result)
qed


text \<open>The definitions that running the pipeline on concrete collaborators unfolds.\<close>

lemmas run_defs = GenerateRequestID_def sendRequest_def Let_def new_request_def envelope_data_def
  handleErrorResponse_def show_int_def digit_char_def

text \<open>Each operation against a gateway that answers with an envelope without result or error.\<close>

theorem nil_result_gives_zero_response_witness:
  "snd (CreateReceipt stub_runtime (stub_client (replying 200 ''empty'')) world0 100 None ''DESC'' None)
     = Return (Some \<lparr>Receipt = None\<rparr>, None) \<and>
   snd (PayReceipt stub_runtime (stub_client (replying 200 ''empty'')) world0
          ''receipt_108'' ''token_0123456789'')
     = Return (Some \<lparr>Receipt = None\<rparr>, None) \<and>
   snd (SendReceipt stub_runtime (stub_client (replying 200 ''empty'')) world0 ''receipt_108'')
     = Return (Some \<lparr>Receipt = None\<rparr>, None) \<and>
   snd (CancelReceipt stub_runtime (stub_client (replying 200 ''empty'')) world0 ''receipt_108'')
     = Return (Some \<lparr>Receipt = None\<rparr>, None) \<and>
   snd (CheckReceipt stub_runtime (stub_client (replying 200 ''empty'')) world0 ''receipt_108'')
     = Return (Some \<lparr>Receipt = None\<rparr>, None) \<and>
   snd (GetReceipt stub_runtime (stub_client (replying 200 ''empty'')) world0 ''receipt_108'')
     = Return (Some \<lparr>Receipt = None\<rparr>, None) \<and>
   snd (GetAllReceipts stub_runtime (stub_client (replying 200 ''empty'')) world0 0 1 10)
     = Return (Some \<lparr>Receipts = []\<rparr>, None) \<and>
   snd (SetFiscalData stub_runtime (stub_client (replying 200 ''empty'')) world0 ''receipt_108'' None)
     = Return (Some \<lparr>Receipt = None\<rparr>, None)"
proof -
  let ?c = "stub_client (replying 200 ''empty'')"
  let ?w1 = "world0\<lparr>clock_reads := Suc 0\<rparr>"
  let ?by_id = "VMap (Some [(''id'', VString ''receipt_108'')])"
  note inst = nil_result_gives_zero_response
    [where rt = stub_runtime and c = ?c and w = world0 and ?w1.0 = ?w1 and r = empty_envelope
       and receiptID = "''receipt_108''" and token = "''token_0123456789''" and amount = 100
       and account = None and description = "''DESC''" and detail = None and fiscalData = None
       and t_from = 0 and t_to = 1 and count = 10]
  have create: "snd (CreateReceipt stub_runtime ?c world0 100 None ''DESC'' None)
     = Return (Some \<lparr>Receipt = None\<rparr>, None)"
    using inst [where requestID = "''ReceiptsCreate:0''"
        and ?w2.0 = "fst (sendRequest stub_runtime ?c ?w1 ''ReceiptsCreate:0'' ''receipts.create''
                       (CreateReceipt_params 100 None ''DESC'' None) False [])"]
    by (simp add: stub_defs run_defs ValidateAmount_def)
  have pay: "snd (PayReceipt stub_runtime ?c world0 ''receipt_108'' ''token_0123456789'')
     = Return (Some \<lparr>Receipt = None\<rparr>, None)"
    using inst [where requestID = "''ReceiptsPay:0''"
        and ?w2.0 = "fst (sendRequest stub_runtime ?c ?w1 ''ReceiptsPay:0'' ''receipts.pay''
                       (VMap (Some [(''id'', VString ''receipt_108''),
                                    (''token'', VString ''token_0123456789'')])) False [])"]
    by (simp add: stub_defs run_defs ValidateReceiptID_def ValidateCardToken_def)
  have send: "snd (SendReceipt stub_runtime ?c world0 ''receipt_108'')
     = Return (Some \<lparr>Receipt = None\<rparr>, None)"
    using inst [where requestID = "''ReceiptsSend:0''"
        and ?w2.0 = "fst (sendRequest stub_runtime ?c ?w1 ''ReceiptsSend:0'' ''receipts.send''
                       ?by_id False [])"]
    by (simp add: stub_defs run_defs ValidateReceiptID_def)
  have cancel: "snd (CancelReceipt stub_runtime ?c world0 ''receipt_108'')
     = Return (Some \<lparr>Receipt = None\<rparr>, None)"
    using inst [where requestID = "''ReceiptsCancel:0''"
        and ?w2.0 = "fst (sendRequest stub_runtime ?c ?w1 ''ReceiptsCancel:0'' ''receipts.cancel''
                       ?by_id False [])"]
    by (simp add: stub_defs run_defs ValidateReceiptID_def)
  have check: "snd (CheckReceipt stub_runtime ?c world0 ''receipt_108'')
     = Return (Some \<lparr>Receipt = None\<rparr>, None)"
    using inst [where requestID = "''ReceiptsCheck:0''"
        and ?w2.0 = "fst (sendRequest stub_runtime ?c ?w1 ''ReceiptsCheck:0'' ''receipts.check''
                       ?by_id False [])"]
    by (simp add: stub_defs run_defs ValidateReceiptID_def)
  have get: "snd (GetReceipt stub_runtime ?c world0 ''receipt_108'')
     = Return (Some \<lparr>Receipt = None\<rparr>, None)"
    using inst [where requestID = "''ReceiptsGet:0''"
        and ?w2.0 = "fst (sendRequest stub_runtime ?c ?w1 ''ReceiptsGet:0'' ''receipts.get''
                       ?by_id False [])"]
    by (simp add: stub_defs run_defs ValidateReceiptID_def)
  have get_all: "snd (GetAllReceipts stub_runtime ?c world0 0 1 10)
     = Return (Some \<lparr>Receipts = []\<rparr>, None)"
    using inst [where requestID = "''ReceiptsGetAll:0''"
        and ?w2.0 = "fst (sendRequest stub_runtime ?c ?w1 ''ReceiptsGetAll:0'' ''receipts.get_all''
                       (VMap (Some [(''from'', VInt64 0), (''to'', VInt64 1), (''count'', VInt 10)]))
                       False [])"]
    by (simp add: stub_defs run_defs)
  have fiscal: "snd (SetFiscalData stub_runtime ?c world0 ''receipt_108'' None)
     = Return (Some \<lparr>Receipt = None\<rparr>, None)"
    using inst [where requestID = "''ReceiptsSetFiscalData:0''"
        and ?w2.0 = "fst (sendRequest stub_runtime ?c ?w1 ''ReceiptsSetFiscalData:0''
                       ''receipts.set_fiscal_data''
                       (VMap (Some [(''id'', VString ''receipt_108''), (''fiscal_data'', VMap None)]))
                       False [])"]
    by (simp add: stub_defs run_defs ValidateReceiptID_def)
  from create pay send cancel check get get_all fiscal show ?thesis by simp
qed


section \<open>Properties of the status helpers\<close>

text \<open>
  C10. Whenever \<open>CheckReceipt\<close> returns an error, \<open>GetReceiptStatus\<close> returns the state
  -1 with that error and \<open>IsReceiptPaid\<close>, \<open>IsReceiptCanceled\<close> and \<open>IsReceiptExpired\<close>
  return false with it. The same -1 is what \<open>GetReceiptStatus\<close> returns, with a nil
  error, for a receipt whose state is -1 (cancelled), for which \<open>IsReceiptCanceled\<close> is
  true: the integer alone does not tell the failed lookup from the cancelled receipt.
\<close>

theorem failed_lookup_returns_minus_one:
  "(CheckReceipt rt c w receiptID = (w1, Return (resp, Some err)) \<longrightarrow>
      GetReceiptStatus rt c w receiptID = (w1, Return (- 1, Some err)) \<and>
      IsReceiptPaid rt c w receiptID = (w1, Return (False, Some err)) \<and>
      IsReceiptCanceled rt c w receiptID = (w1, Return (False, Some err)) \<and>
      IsReceiptExpired rt c w receiptID = (w1, Return (False, Some err))) \<and>
   (CheckReceipt rt c w receiptID = (w1, Return (Some checked, None)) \<longrightarrow>
    Receipt checked = Some receipt \<longrightarrow> rcpt_State receipt = - 1 \<longrightarrow>
      GetReceiptStatus rt c w receiptID = (w1, Return (- 1, None)) \<and>
      IsReceiptCanceled rt c w receiptID = (w1, Return (True, None)))"
  by (simp add: GetReceiptStatus_def IsReceiptPaid_def IsReceiptCanceled_def IsReceiptExpired_def
        state_is_def split: option.splits)

text \<open>The definitions that running \<open>CheckReceipt\<close> unfolds.\<close>

lemmas op_defs = CheckReceipt_def by_receipt_id_def after_send_def parse_result_def
  ValidateReceiptID_def

text \<open>A gateway that does not know the receipt, and one that reports it as cancelled.\<close>

theorem failed_lookup_returns_minus_one_witness:
  "snd (GetReceiptStatus stub_runtime (stub_client (replying 200 ''missing'')) world0 ''receipt_108'')
     = Return (- 1, Some ErrReceiptNotFound) \<and>
   snd (IsReceiptPaid stub_runtime (stub_client (replying 200 ''missing'')) world0 ''receipt_108'')
     = Return (False, Some ErrReceiptNotFound) \<and>
   snd (IsReceiptCanceled stub_runtime (stub_client (replying 200 ''missing'')) world0 ''receipt_108'')
     = Return (False, Some ErrReceiptNotFound) \<and>
   snd (IsReceiptExpired stub_runtime (stub_client (replying 200 ''missing'')) world0 ''receipt_108'')
     = Return (False, Some ErrReceiptNotFound) \<and>
   snd (GetReceiptStatus stub_runtime (stub_client (replying 200 ''cancelled'')) world0 ''receipt_108'')
     = Return (- 1, None) \<and>
   snd (IsReceiptCanceled stub_runtime (stub_client (replying 200 ''cancelled'')) world0 ''receipt_108'')
     = Return (True, None)"
proof -
  let ?missing = "stub_client (replying 200 ''missing'')"
  let ?cancelled = "stub_client (replying 200 ''cancelled'')"
  have m: "CheckReceipt stub_runtime ?missing world0 ''receipt_108''
      = (fst (CheckReceipt stub_runtime ?missing world0 ''receipt_108''),
         Return (None, Some ErrReceiptNotFound))"
    by (simp add: op_defs stub_defs run_defs error_envelope_def error_code_defs)
  have k: "CheckReceipt stub_runtime ?cancelled world0 ''receipt_108''
      = (fst (CheckReceipt stub_runtime ?cancelled world0 ''receipt_108''),
         Return (Some \<lparr>Receipt = Some (receipt_108\<lparr>rcpt_State := - 1\<rparr>)\<rparr>, None))"
    by (simp add: op_defs stub_defs run_defs)
  from failed_lookup_returns_minus_one
         [of stub_runtime ?missing world0 "''receipt_108''" _ None ErrReceiptNotFound, THEN conjunct1,
          rule_format, OF m]
       failed_lookup_returns_minus_one
         [of stub_runtime ?cancelled world0 "''receipt_108''" _ _ _
             "\<lparr>Receipt = Some (receipt_108\<lparr>rcpt_State := - 1\<rparr>)\<rparr>"
             "receipt_108\<lparr>rcpt_State := - 1\<rparr>", THEN conjunct2, rule_format, OF k]
  show ?thesis by simp
qed


section \<open>The requests an operation sends\<close>

lemma sends_iff: "sends P w w' \<longleftrightarrow> (\<exists>new. sent w' = sent w @ new \<and> list_all P new)"
proof
  assume "sends P w w'"
  then have "sent w' = sent w @ sent_since w w'" "list_all P (sent_since w w')"
    unfolding sends_def sent_since_def by (metis append_take_drop_id, simp)
  then show "\<exists>new. sent w' = sent w @ new \<and> list_all P new" by blast
next
  assume "\<exists>new. sent w' = sent w @ new \<and> list_all P new"
  then show "sends P w w'" by (auto simp: sends_def sent_since_def)
qed

lemma sends_same: "sent w' = sent w \<Longrightarrow> sends P w w'"
  by (simp add: sends_iff)

lemma sends_trans: "sends P w w1 \<Longrightarrow> sends P w1 w2 \<Longrightarrow> sends P w w2"
  by (auto simp: sends_iff)

lemma sends_mono: "sends P w w' \<Longrightarrow> (\<And>rq. P rq \<Longrightarrow> Q rq) \<Longrightarrow> sends Q w w'"
  by (auto simp: sends_iff list_all_iff)

lemma sends_list_all: "sends P w w' \<Longrightarrow> list_all P (sent_since w w')"
  by (simp add: sends_def)

lemma sendRequest_sends:
  "sends (\<lambda>rq. rq_data rq = envelope_data rid m ps) w (fst (sendRequest rt c w rid m ps wid t))"
  apply (simp only: sendRequest_def Let_def)
  apply (subst (1) handleErrorResponse_eq)
  apply (auto simp: sends_iff new_request_def split: sum.splits option.splits http_outcome.splits)
  done

lemma after_send_fst: "fst (after_send rt sr) = fst sr"
  by (cases sr) (auto simp: after_send_def split: option.splits)

lemma sent_GenerateRequestID: "GenerateRequestID rt w p = (w1, rid) \<Longrightarrow> sent w1 = sent w"
  by (auto simp: GenerateRequestID_def)

lemma rpc_method_envelope:
  "rq_data rq = envelope_data rid m ps \<Longrightarrow> rpc_method rq = VString m"
  by (simp add: rpc_method_def envelope_data_def)

lemma outbound_amount_envelope:
  "rq_data rq = envelope_data rid m (VMap (Some ((''amount'', v) # kvs))) \<Longrightarrow> outbound_amount rq = v"
  by (simp add: outbound_amount_def envelope_data_def)

lemma CreateReceipt_sends:
  "sends (\<lambda>rq. rpc_method rq = VString ''receipts.create'' \<and> outbound_amount rq = VInt64 amount) w
     (fst (CreateReceipt rt c w amount account description detail))"
proof (cases "ValidateAmount amount")
  case (Some e)
  then show ?thesis by (simp add: CreateReceipt_def sends_same)
next
  case None
  obtain w1 rid where g: "GenerateRequestID rt w ''ReceiptsCreate'' = (w1, rid)"
    by (cases "GenerateRequestID rt w ''ReceiptsCreate''")
  have "sends (\<lambda>rq. rpc_method rq = VString ''receipts.create'' \<and> outbound_amount rq = VInt64 amount) w1
          (fst (sendRequest rt c w1 rid ''receipts.create''
                 (CreateReceipt_params amount account description detail) False []))"
    by (rule sends_mono [OF sendRequest_sends])
       (simp add: rpc_method_envelope outbound_amount_envelope CreateReceipt_params_def)
  with sends_same [OF sent_GenerateRequestID [OF g]] have "sends
        (\<lambda>rq. rpc_method rq = VString ''receipts.create'' \<and> outbound_amount rq = VInt64 amount) w
          (fst (sendRequest rt c w1 rid ''receipts.create''
                 (CreateReceipt_params amount account description detail) False []))"
    by (rule sends_trans)
  with None g show ?thesis by (simp add: CreateReceipt_def after_send_fst)
qed

lemma PayReceipt_sends:
  "sends (\<lambda>rq. rpc_method rq = VString ''receipts.pay'') w (fst (PayReceipt rt c w receiptID token))"
proof (cases "ValidateReceiptID receiptID = None \<and> ValidateCardToken token = None")
  case False
  then show ?thesis by (auto simp: PayReceipt_def sends_same split: option.splits)
next
  case True
  obtain w1 rid where g: "GenerateRequestID rt w ''ReceiptsPay'' = (w1, rid)"
    by (cases "GenerateRequestID rt w ''ReceiptsPay''")
  let ?ps = "VMap (Some [(''id'', VString receiptID), (''token'', VString token)])"
  have "sends (\<lambda>rq. rpc_method rq = VString ''receipts.pay'') w1
          (fst (sendRequest rt c w1 rid ''receipts.pay'' ?ps False []))"
    by (rule sends_mono [OF sendRequest_sends]) (simp add: rpc_method_envelope)
  with sends_same [OF sent_GenerateRequestID [OF g]]
  have "sends (\<lambda>rq. rpc_method rq = VString ''receipts.pay'') w
          (fst (sendRequest rt c w1 rid ''receipts.pay'' ?ps False []))"
    by (rule sends_trans)
  with True g show ?thesis by (simp add: PayReceipt_def after_send_fst)
qed

lemma CreateMerchantReceipt_sends:
  "sends (\<lambda>rq. rpc_method rq = VString ''receipts.create'' \<and>
               outbound_amount rq = VInt (FromSomToTiyin (pd_Amount data))) w
     (fst (CreateMerchantReceipt rt c w data))"
proof -
  let ?rid = "''ReceiptsCreate:MerchantTransaction:'' @ OrderID (pd_Client data)"
  let ?sr = "sendRequest rt c w ?rid ''receipts.create'' (CreateMerchantReceipt_params c data) False []"
  have s: "sends (\<lambda>rq. rpc_method rq = VString ''receipts.create'' \<and>
               outbound_amount rq = VInt (FromSomToTiyin (pd_Amount data))) w (fst ?sr)"
    by (rule sends_mono [OF sendRequest_sends])
       (simp add: rpc_method_envelope outbound_amount_envelope CreateMerchantReceipt_params_def Let_def)
  have "sent (fst (CreateMerchantReceipt rt c w data)) = sent (fst ?sr)"
    by (cases ?sr) (auto simp: CreateMerchantReceipt_def Let_def split: option.splits sum.splits)
  with s show ?thesis by (simp add: sends_iff)
qed

lemma PayMerchantReceipt_sends:
  "sends (\<lambda>rq. rpc_method rq = VString ''receipts.pay'') w
     (fst (PayMerchantReceipt rt c w data createdReceiptsID))"
proof -
  let ?rid = "''ReceiptsPay:'' @ OrderID (pd_Client data)"
  let ?sr = "sendRequest rt c w ?rid ''receipts.pay''
      (VMap (Some [(''id'', VString createdReceiptsID),
                   (''token'', VString (card_Token (CardData (pd_Client data))))])) False []"
  have s: "sends (\<lambda>rq. rpc_method rq = VString ''receipts.pay'') w (fst ?sr)"
    by (rule sends_mono [OF sendRequest_sends]) (simp add: rpc_method_envelope)
  have "sent (fst (PayMerchantReceipt rt c w data createdReceiptsID)) = sent (fst ?sr)"
    by (cases ?sr) (auto simp: PayMerchantReceipt_def Let_def split: option.splits sum.splits)
  with s show ?thesis by (simp add: sends_iff)
qed


lemma CreateAndPayReceipt_world:
  assumes "CreateReceipt rt c w amount account description None = (w1, out)"
  shows "fst (CreateAndPayReceipt rt c w amount account description token) = w1 \<or>
         (\<exists>rid. fst (CreateAndPayReceipt rt c w amount account description token)
                = fst (PayReceipt rt c w1 rid token))"
proof -
  have "fst (case PayReceipt rt c w1 rid token of
               (w2, Panic) \<Rightarrow> (w2, Panic)
             | (w2, Return (payResp, Some err)) \<Rightarrow>
                 (w2, Return (None, Some (Errorf_w ''pay receipt error: '' err)))
             | (w2, Return (payResp, None)) \<Rightarrow> (w2, Return (payResp, None)))
        = fst (PayReceipt rt c w1 rid token)" for rid
    by (cases "PayReceipt rt c w1 rid token") (auto split: outcome.splits option.splits)
  with assms show ?thesis
    by (auto simp: CreateAndPayReceipt_def split: outcome.splits option.splits)
qed

lemma CreateAndPayReceipt_sends:
  "sends (\<lambda>rq. rpc_method rq = VString ''receipts.create'' \<and> outbound_amount rq = VInt64 amount \<or>
               rpc_method rq = VString ''receipts.pay'')
     w (fst (CreateAndPayReceipt rt c w amount account description token))"
proof -
  let ?Q = "\<lambda>rq. rpc_method rq = VString ''receipts.create'' \<and> outbound_amount rq = VInt64 amount \<or>
                 rpc_method rq = VString ''receipts.pay''"
  obtain w1 out where cr: "CreateReceipt rt c w amount account description None = (w1, out)"
    by (cases "CreateReceipt rt c w amount account description None")
  have s1: "sends ?Q w w1"
    using sends_mono [OF CreateReceipt_sends [of amount w rt c account description None], of ?Q] cr
    by simp
  have s2: "sends ?Q w1 (fst (PayReceipt rt c w1 rid token))" for rid
    by (rule sends_mono [OF PayReceipt_sends]) simp
  from CreateAndPayReceipt_world [OF cr, of token] show ?thesis
    using s1 sends_trans [OF s1 s2] by auto
qed

lemma CreateAndPayMerchantReceipt_world:
  assumes "CreateMerchantReceipt rt c w data = (w1, out)"
  shows "fst (CreateAndPayMerchantReceipt rt c w data) = w1 \<or>
         (\<exists>rid. fst (CreateAndPayMerchantReceipt rt c w data)
                = fst (PayMerchantReceipt rt c w1 data rid))"
proof -
  have "fst (case PayMerchantReceipt rt c w1 data rid of
               (w2, Panic) \<Rightarrow> (w2, Panic)
             | (w2, Return (paidReceiptsID, Some err)) \<Rightarrow> (w2, Return ([], Some err))
             | (w2, Return (paidReceiptsID, None)) \<Rightarrow> (w2, Return (paidReceiptsID, None)))
        = fst (PayMerchantReceipt rt c w1 data rid)" for rid
    by (cases "PayMerchantReceipt rt c w1 data rid") (auto split: outcome.splits option.splits)
  with assms show ?thesis
    by (auto simp: CreateAndPayMerchantReceipt_def split: outcome.splits option.splits)
qed

lemma CreateAndPayMerchantReceipt_sends:
  "sends (\<lambda>rq. rpc_method rq = VString ''receipts.create'' \<and>
                 outbound_amount rq = VInt (FromSomToTiyin (pd_Amount data)) \<or>
               rpc_method rq = VString ''receipts.pay'')
     w (fst (CreateAndPayMerchantReceipt rt c w data))"
proof -
  let ?Q = "\<lambda>rq. rpc_method rq = VString ''receipts.create'' \<and>
                   outbound_amount rq = VInt (FromSomToTiyin (pd_Amount data)) \<or>
                 rpc_method rq = VString ''receipts.pay''"
  obtain w1 out where cr: "CreateMerchantReceipt rt c w data = (w1, out)"
    by (cases "CreateMerchantReceipt rt c w data")
  have s1: "sends ?Q w w1"
    using sends_mono [OF CreateMerchantReceipt_sends [of data w rt c], of ?Q] cr by simp
  have s2: "sends ?Q w1 (fst (PayMerchantReceipt rt c w1 data rid))" for rid
    by (rule sends_mono [OF PayMerchantReceipt_sends]) simp
  from CreateAndPayMerchantReceipt_world [OF cr] show ?thesis
    using s1 sends_trans [OF s1 s2] by auto
qed














section \<open>Properties of the outbound amount\<close>





section \<open>Properties of create-then-pay\<close>

text \<open>The definitions that running create-then-pay on the stub gateway unfolds.\<close>

lemmas create_pay_defs = CreateReceipt_def PayReceipt_def after_send_def parse_result_def
  ValidateAmount_def ValidateReceiptID_def ValidateCardToken_def CreateReceipt_params_def
  create_ok_pay_refused_def value_index.simps index_map.simps receipt_108_def
  error_envelope_def error_code_defs

text \<open>
  C4, as claimed: when the Pay step fails, the composite returns the Pay step's error
  unchanged, the same error value. The gateway creates the receipt and refuses the
  payment: \<open>PayReceipt\<close> returns \<open>ErrReceiptAlreadyPaid\<close>, and \<open>CreateAndPayReceipt\<close> returns
  another value, the error that wraps it.
\<close>

theorem CreateAndPayReceipt_wraps_pay_error:
  "snd (PayReceipt stub_runtime (stub_client create_ok_pay_refused)
          (fst (CreateReceipt stub_runtime (stub_client create_ok_pay_refused) world0
                  10000 None ''DESC'' None))
          ''receipt_108'' ''token_0123456789'') = Return (None, Some ErrReceiptAlreadyPaid) \<and>
   snd (CreateAndPayReceipt stub_runtime (stub_client create_ok_pay_refused) world0
          10000 None ''DESC'' ''token_0123456789'')
     = Return (None, Some (Errorf_w ''pay receipt error: '' ErrReceiptAlreadyPaid)) \<and>
   Errorf_w ''pay receipt error: '' ErrReceiptAlreadyPaid \<noteq> ErrReceiptAlreadyPaid"
  by (simp add: CreateAndPayReceipt_def create_pay_defs stub_defs run_defs)

text \<open>
  C4, amended. When the Pay step returns an error: \<open>CreateAndPayReceipt\<close> returns a nil
  response and that error wrapped under the prefix "pay receipt error: " (\<open>errors.Is\<close>
  still finds it); \<open>CreateAndPayMerchantReceipt\<close> returns the empty id and that error
  itself. Neither composite ever sends a \<open>receipts.cancel\<close> request.
\<close>

theorem pay_error_of_create_and_pay:
  "(CreateReceipt rt c w amount account description None = (w1, Return (Some created, None)) \<longrightarrow>
    Receipt created = Some receipt \<longrightarrow>
    PayReceipt rt c w1 (rcpt_ID receipt) token = (w2, Return (payResp, Some err)) \<longrightarrow>
      CreateAndPayReceipt rt c w amount account description token
        = (w2, Return (None, Some (Errorf_w ''pay receipt error: '' err))) \<and>
      errors_Is (Errorf_w ''pay receipt error: '' err) err) \<and>
   (CreateMerchantReceipt rt c w data = (w1, Return (createdReceiptsID, None)) \<longrightarrow>
    PayMerchantReceipt rt c w1 data createdReceiptsID = (w2, Return (paidReceiptsID, Some err)) \<longrightarrow>
      CreateAndPayMerchantReceipt rt c w data = (w2, Return ([], Some err))) \<and>
   list_all (\<lambda>rq. rpc_method rq \<noteq> VString ''receipts.cancel'')
     (sent_since w (fst (CreateAndPayReceipt rt c w amount account description token))) \<and>
   list_all (\<lambda>rq. rpc_method rq \<noteq> VString ''receipts.cancel'')
     (sent_since w (fst (CreateAndPayMerchantReceipt rt c w data)))"
proof (intro conjI impI)
  assume "CreateReceipt rt c w amount account description None = (w1, Return (Some created, None))"
    "Receipt created = Some receipt"
    "PayReceipt rt c w1 (rcpt_ID receipt) token = (w2, Return (payResp, Some err))"
  then show "CreateAndPayReceipt rt c w amount account description token
        = (w2, Return (None, Some (Errorf_w ''pay receipt error: '' err)))"
    by (simp add: CreateAndPayReceipt_def)
next
  show "errors_Is (Errorf_w ''pay receipt error: '' err) err"
    by (simp add: errors_Is_refl)
next
  assume "CreateMerchantReceipt rt c w data = (w1, Return (createdReceiptsID, None))"
    "PayMerchantReceipt rt c w1 data createdReceiptsID = (w2, Return (paidReceiptsID, Some err))"
  then show "CreateAndPayMerchantReceipt rt c w data = (w2, Return ([], Some err))"
    by (simp add: CreateAndPayMerchantReceipt_def)
next
  have "sends (\<lambda>rq. rpc_method rq \<noteq> VString ''receipts.cancel'') w
          (fst (CreateAndPayReceipt rt c w amount account description token))"
    by (rule sends_mono [OF CreateAndPayReceipt_sends]) auto
  then show "list_all (\<lambda>rq. rpc_method rq \<noteq> VString ''receipts.cancel'')
     (sent_since w (fst (CreateAndPayReceipt rt c w amount account description token)))"
    by (rule sends_list_all)
next
  have "sends (\<lambda>rq. rpc_method rq \<noteq> VString ''receipts.cancel'') w
          (fst (CreateAndPayMerchantReceipt rt c w data))"
    by (rule sends_mono [OF CreateAndPayMerchantReceipt_sends]) auto
  then show "list_all (\<lambda>rq. rpc_method rq \<noteq> VString ''receipts.cancel'')
     (sent_since w (fst (CreateAndPayMerchantReceipt rt c w data)))"
    by (rule sends_list_all)
qed

text \<open>Both composites against the gateway that creates the receipt and refuses the payment.\<close>

theorem pay_error_of_create_and_pay_witness:
  "snd (CreateAndPayReceipt stub_runtime (stub_client create_ok_pay_refused) world0
          10000 None ''DESC'' ''token_0123456789'')
     = Return (None, Some (Errorf_w ''pay receipt error: '' ErrReceiptAlreadyPaid)) \<and>
   snd (CreateAndPayMerchantReceipt stub_runtime (stub_client create_ok_pay_refused) world0 order_7)
     = Return ([], Some (Errorf_v
         ''failed receipts pay (error - %v request-id - %s receipts-id %s response - %v)''
         [ArgError ErrReceiptAlreadyPaid, ArgString ''ReceiptsPay:7'', ArgString ''receipt_108'',
          ArgErrorDetail (resp_Error (error_envelope ReceiptAlreadyPaidErrorCode))])) \<and>
   map rpc_method
     (sent_since world0
        (fst (CreateAndPayReceipt stub_runtime (stub_client create_ok_pay_refused) world0
                10000 None ''DESC'' ''token_0123456789'')))
     = [VString ''receipts.create'', VString ''receipts.pay''] \<and>
   map rpc_method
     (sent_since world0
        (fst (CreateAndPayMerchantReceipt stub_runtime (stub_client create_ok_pay_refused) world0 order_7)))
     = [VString ''receipts.create'', VString ''receipts.pay'']"
proof -
  let ?c = "stub_client create_ok_pay_refused"
  let ?tok = "''token_0123456789''"
  let ?w1 = "fst (CreateReceipt stub_runtime ?c world0 10000 None ''DESC'' None)"
  let ?m1 = "fst (CreateMerchantReceipt stub_runtime ?c world0 order_7)"
  have cr: "CreateReceipt stub_runtime ?c world0 10000 None ''DESC'' None
      = (?w1, Return (Some \<lparr>Receipt = Some receipt_108\<rparr>, None))"
    by (simp add: create_pay_defs stub_defs run_defs)
  have pr: "PayReceipt stub_runtime ?c ?w1 (rcpt_ID receipt_108) ?tok
      = (fst (PayReceipt stub_runtime ?c ?w1 (rcpt_ID receipt_108) ?tok),
         Return (None, Some ErrReceiptAlreadyPaid))"
    by (simp add: create_pay_defs stub_defs run_defs)
  have cm: "CreateMerchantReceipt stub_runtime ?c world0 order_7 = (?m1, Return (''receipt_108'', None))"
    by (simp add: CreateMerchantReceipt_def CreateMerchantReceipt_params_def order_7_def
          create_pay_defs stub_defs run_defs)
  have pm: "PayMerchantReceipt stub_runtime ?c ?m1 order_7 ''receipt_108''
      = (fst (PayMerchantReceipt stub_runtime ?c ?m1 order_7 ''receipt_108''),
         Return ([], Some (Errorf_v
           ''failed receipts pay (error - %v request-id - %s receipts-id %s response - %v)''
           [ArgError ErrReceiptAlreadyPaid, ArgString ''ReceiptsPay:7'', ArgString ''receipt_108'',
            ArgErrorDetail (resp_Error (error_envelope ReceiptAlreadyPaidErrorCode))])))"
    by (simp add: PayMerchantReceipt_def CreateMerchantReceipt_def CreateMerchantReceipt_params_def
          order_7_def create_pay_defs stub_defs run_defs)
  note inst = pay_error_of_create_and_pay
    [of stub_runtime ?c world0 10000 None "''DESC''" ?w1 "\<lparr>Receipt = Some receipt_108\<rparr>"
        receipt_108 ?tok]
  have one: "snd (CreateAndPayReceipt stub_runtime ?c world0 10000 None ''DESC'' ?tok)
     = Return (None, Some (Errorf_w ''pay receipt error: '' ErrReceiptAlreadyPaid))"
    using inst [THEN conjunct1, rule_format, OF cr _ pr] by simp
  have two: "snd (CreateAndPayMerchantReceipt stub_runtime ?c world0 order_7)
     = Return ([], Some (Errorf_v
         ''failed receipts pay (error - %v request-id - %s receipts-id %s response - %v)''
         [ArgError ErrReceiptAlreadyPaid, ArgString ''ReceiptsPay:7'', ArgString ''receipt_108'',
          ArgErrorDetail (resp_Error (error_envelope ReceiptAlreadyPaidErrorCode))]))"
    using pay_error_of_create_and_pay
      [where rt = stub_runtime and c = ?c and w = world0 and data = order_7 and ?w1.0 = ?m1
         and createdReceiptsID = "''receipt_108''",
       THEN conjunct2, THEN conjunct1, rule_format, OF cm pm]
    by simp
  have three: "map rpc_method
     (sent_since world0 (fst (CreateAndPayReceipt stub_runtime ?c world0 10000 None ''DESC'' ?tok)))
     = [VString ''receipts.create'', VString ''receipts.pay'']"
    by (simp add: CreateAndPayReceipt_def create_pay_defs stub_defs run_defs sent_since_def
          rpc_method_def)
  have four: "map rpc_method
     (sent_since world0 (fst (CreateAndPayMerchantReceipt stub_runtime ?c world0 order_7)))
     = [VString ''receipts.create'', VString ''receipts.pay'']"
    by (simp add: CreateAndPayMerchantReceipt_def PayMerchantReceipt_def CreateMerchantReceipt_def
          CreateMerchantReceipt_params_def order_7_def create_pay_defs stub_defs run_defs
          sent_since_def rpc_method_def)
  from one two three four show ?thesis by simp
qed


section \<open>Properties of the batch helpers\<close>

lemma after_send_returns:
  "snd (after_send rt (sendRequest rt c w rid m ps wid t)) \<noteq> Panic"
proof -
  obtain w' resp err where s: "sendRequest rt c w rid m ps wid t = (w', resp, err)"
    by (cases "sendRequest rt c w rid m ps wid t")
  from sendRequest_cases [OF s] show ?thesis
    by (auto simp: s after_send_def parse_result_def split: option.splits sum.splits)
qed

lemma by_receipt_id_returns: "snd (by_receipt_id prefix method rt c w receiptID) \<noteq> Panic"
  by (auto simp: by_receipt_id_def after_send_returns split: option.splits prod.splits)

lemma CancelMultipleReceipts_loop_returns:
  "snd (CancelMultipleReceipts_loop rt c w receiptIDs) = Return ()"
proof (induction receiptIDs arbitrary: w)
  case Nil
  show ?case by simp
next
  case (Cons receiptID rest)
  obtain w1 out where cr: "CancelReceipt rt c w receiptID = (w1, out)"
    by (cases "CancelReceipt rt c w receiptID")
  with by_receipt_id_returns [of "''ReceiptsCancel''" "''receipts.cancel''" rt c w receiptID]
  have "out \<noteq> Panic" by (simp add: CancelReceipt_def)
  then obtain resp err where "out = Return (resp, err)" by (cases out) auto
  with cr Cons.IH show ?case by (cases err) simp_all
qed

text \<open>\<open>CancelMultipleReceipts\<close> returns, and returns a nil error, whatever the calls did.\<close>

lemma CancelMultipleReceipts_returns_nil:
  "snd (CancelMultipleReceipts rt c w receiptIDs) = Return None"
  using CancelMultipleReceipts_loop_returns [of rt c w receiptIDs]
  by (cases "CancelMultipleReceipts_loop rt c w receiptIDs") (simp add: CancelMultipleReceipts_def)

text \<open>Whenever \<open>CreateMultipleReceipts\<close> returns, its error is nil.\<close>

lemma CreateMultipleReceipts_error_nil:
  "snd (CreateMultipleReceipts rt c w receipts) = Return (receiptIDs, err) \<Longrightarrow> err = None"
  by (auto simp: CreateMultipleReceipts_def split: prod.splits outcome.splits)

text \<open>
  An item whose \<open>amount\<close> is not an int64, or whose \<open>account\<close> is not a map, is passed
  over: the loop goes on with the same world (nothing sent, nothing logged) and the same
  ids.
\<close>

lemma CreateMultipleReceipts_loop_skips:
  "\<not> snd (assert_int64 (index_map receipt ''amount'')) \<or>
   \<not> snd (assert_map (index_map receipt ''account'')) \<Longrightarrow>
   CreateMultipleReceipts_loop rt c w receiptIDs (receipt # rest)
     = CreateMultipleReceipts_loop rt c w receiptIDs rest"
  by (auto split: prod.splits bool.splits)

text \<open>An item whose \<open>CreateReceipt\<close> returns an error is passed over, the error dropped.\<close>

lemma CreateMultipleReceipts_loop_drops_error:
  "assert_int64 (index_map receipt ''amount'') = (amount, True) \<Longrightarrow>
   assert_map (index_map receipt ''account'') = (account, True) \<Longrightarrow>
   CreateReceipt rt c w amount account
     (fst (assert_string (index_map receipt ''description'')))
     (fst (assert_map (index_map receipt ''detail''))) = (w1, Return (resp, Some err)) \<Longrightarrow>
   CreateMultipleReceipts_loop rt c w receiptIDs (receipt # rest)
     = CreateMultipleReceipts_loop rt c w1 receiptIDs rest"
  by (simp add: Let_def split: option.splits)

text \<open>Without a logger the pipeline, and so \<open>CancelMultipleReceipts\<close>, logs nothing.\<close>

lemma sendRequest_logged:
  "\<not> Logger c \<Longrightarrow> logged (fst (sendRequest rt c w rid m ps wid t)) = logged w"
  apply (simp only: sendRequest_def Let_def)
  apply (subst (1) handleErrorResponse_eq)
  apply (auto split: sum.splits option.splits http_outcome.splits)
  done

lemma by_receipt_id_logged:
  "\<not> Logger c \<Longrightarrow> logged (fst (by_receipt_id prefix method rt c w receiptID)) = logged w"
  by (auto simp: by_receipt_id_def after_send_fst sendRequest_logged GenerateRequestID_def
        split: option.splits)

lemma CancelMultipleReceipts_loop_logged:
  "\<not> Logger c \<Longrightarrow> logged (fst (CancelMultipleReceipts_loop rt c w receiptIDs)) = logged w"
proof (induction receiptIDs arbitrary: w)
  case Nil
  show ?case by simp
next
  case (Cons receiptID rest)
  obtain w1 out where cr: "CancelReceipt rt c w receiptID = (w1, out)"
    by (cases "CancelReceipt rt c w receiptID")
  with by_receipt_id_logged [OF Cons.prems, of "''ReceiptsCancel''" "''receipts.cancel''" rt w receiptID]
  have l: "logged w1 = logged w" by (simp add: CancelReceipt_def)
  show ?case
  proof (cases out)
    case Panic
    with cr l show ?thesis by simp
  next
    case (Return p)
    obtain resp err where "p = (resp, err)" by (cases p)
    with Return cr l Cons.IH [OF Cons.prems] Cons.prems show ?thesis by (cases err) simp_all
  qed
qed

text \<open>
  C9. The claim: for every batch and every outcome of the calls per item,
  \<open>CreateMultipleReceipts\<close> and \<open>CancelMultipleReceipts\<close> return a nil error. For
  \<open>CancelMultipleReceipts\<close> that is \<open>CancelMultipleReceipts_returns_nil\<close>. For
  \<open>CreateMultipleReceipts\<close> one outcome is left: the gateway answers an item with an
  envelope without result, \<open>CreateReceipt\<close> returns the zero-valued response and a nil
  error, and the loop reads \<open>resp.Receipt.ID\<close> through the nil receipt. The call panics
  and returns nothing.
\<close>

theorem CreateMultipleReceipts_panics_on_empty_success:
  "snd (CreateReceipt stub_runtime (stub_client (replying 200 ''empty'')) world0 100 (Some []) [] None)
     = Return (Some \<lparr>Receipt = None\<rparr>, None) \<and>
   snd (CreateMultipleReceipts stub_runtime (stub_client (replying 200 ''empty'')) world0
          [Some [(''amount'', VInt64 100), (''account'', VMap (Some []))]]) = Panic"
  by (simp add: CreateMultipleReceipts_def CreateReceipt_def after_send_def parse_result_def
        ValidateAmount_def CreateReceipt_params_def stub_defs run_defs)


end
